theory Spec2Isabelle
  imports Main "HOL-Library.Word" "HOL-Library.Signed_Division"
begin

section \<open>Machine integers and panics\<close>

text \<open>
  Go's \<^verbatim>\<open>uint64\<close> is a 64-bit word. Go's \<^verbatim>\<open>uint\<close> (widths, offsets, array sizes) is
  modelled as a 64-bit word as well, the size it has on the 64-bit hosts the engine is
  built for, so that \<^verbatim>\<open>+\<close> and \<^verbatim>\<open>-\<close> wrap around as they do in the source.
\<close>

type_synonym uint64 = "64 word"
type_synonym uint = "64 word"

text \<open>
  A \<^verbatim>\<open>panic\<close> (raised directly, by \<^verbatim>\<open>assert\<close>, or by the runtime on a division by
  zero) is the value \<open>Inl (Panic msg)\<close>. \<open>OutOfFuel\<close> marks a recursion of the expression
  constructors that was cut off by the recursion bound of the model.
\<close>

datatype error = Panic string | OutOfFuel

type_synonym 'a res = "error + 'a"

definition bind :: "'a res \<Rightarrow> ('a \<Rightarrow> 'b res) \<Rightarrow> 'b res" where
  "bind m f = (case m of Inl e \<Rightarrow> Inl e | Inr x \<Rightarrow> f x)"

definition assert :: "bool \<Rightarrow> string \<Rightarrow> unit res" where
  "assert condition format = (if condition then Inr () else Inl (Panic format))"

section \<open>Expressions and arrays\<close>

datatype BinaryOp =
    ADD | SUB | MUL | UDIV | SDIV | UREM | SREM | AND | OR | XOR | SHL | LSHR | ASHR
  | EQ | NE | ULT | ULE | UGT | UGE | SLT | SLE | SGT | SGE

definition IsArithmetic :: "BinaryOp \<Rightarrow> bool" where
  "IsArithmetic op = (op \<in> {ADD, SUB, MUL, UDIV, SDIV, UREM, SREM, AND, OR, XOR, SHL, LSHR, ASHR})"

definition IsCompare :: "BinaryOp \<Rightarrow> bool" where
  "IsCompare op = (op \<in> {EQ, NE, ULT, ULE, UGT, UGE, SLT, SLE, SGT, SGE})"

record ConstantExpr =
  Value :: uint64
  Width :: uint

text \<open>
  \<^verbatim>\<open>Expr\<close> is an interface with eight implementations; \<^verbatim>\<open>Array\<close> carries the linked
  list of \<^verbatim>\<open>ArrayUpdate\<close> nodes, newest first. Expression nodes are immutable values here,
  and a value does not tell whether two equal operands are one node or two: the pointer
  comparison \<^verbatim>\<open>msb.Expr == lsb.Expr\<close> of \<^verbatim>\<open>NewConcatExpr\<close> is a parameter of the constructors
  that reach it.
\<close>

datatype Expr =
    Constant ConstantExpr
  | NotOptimized Expr
  | Select Array Expr
  | Concat Expr Expr
  | Extract Expr uint uint
  | Not Expr
  | Cast Expr uint bool
  | Binary BinaryOp Expr Expr
and Array = Array (ID: uint64) (Size: uint) (Updates: "ArrayUpdate list")
and ArrayUpdate = ArrayUpdate (Index: Expr) (Val: Expr)

definition WidthBool :: uint where "WidthBool = 1"
definition Width8 :: uint where "Width8 = 8"
definition Width16 :: uint where "Width16 = 16"
definition Width32 :: uint where "Width32 = 32"
definition Width64 :: uint where "Width64 = 64"

fun ExprWidth :: "Expr \<Rightarrow> uint" where
  "ExprWidth (Constant c) = Width c"
| "ExprWidth (NotOptimized src) = ExprWidth src"
| "ExprWidth (Select a index) = Width8"
| "ExprWidth (Concat msb lsb) = ExprWidth msb + ExprWidth lsb"
| "ExprWidth (Extract e off w) = w"
| "ExprWidth (Not e) = ExprWidth e"
| "ExprWidth (Cast src w is_signed) = w"
| "ExprWidth (Binary op lhs rhs) = (if IsCompare op then WidthBool else ExprWidth lhs)"

definition NewArray :: "uint64 \<Rightarrow> uint \<Rightarrow> Array" where
  "NewArray array_id array_size = Array array_id array_size []"

section \<open>Constants\<close>

text \<open>
  \<^verbatim>\<open>(1 << width) - 1\<close> on \<^verbatim>\<open>uint64\<close>: a shift by 64 or more gives 0 in Go, so the
  mask is all ones from width 64 on; \<open>push_bit\<close> on a 64-bit word does the same.
\<close>

definition bitmask :: "uint \<Rightarrow> uint64" where
  "bitmask width = push_bit (unat width) 1 - 1"

definition NewConstantExpr :: "uint64 \<Rightarrow> uint \<Rightarrow> ConstantExpr" where
  "NewConstantExpr v width = \<lparr>Value = and v (push_bit (unat width) 1 - 1), Width = width\<rparr>"

definition NewConstantExpr64 :: "uint64 \<Rightarrow> ConstantExpr" where
  "NewConstantExpr64 v = NewConstantExpr v 64"

definition NewBoolConstantExpr :: "bool \<Rightarrow> ConstantExpr" where
  "NewBoolConstantExpr b =
     (if b then \<lparr>Value = 1, Width = WidthBool\<rparr> else \<lparr>Value = 0, Width = WidthBool\<rparr>)"

definition IsTrue :: "ConstantExpr \<Rightarrow> bool" where
  "IsTrue e = (Width e = WidthBool \<and> Value e \<noteq> 0)"

definition IsFalse :: "ConstantExpr \<Rightarrow> bool" where
  "IsFalse e = (Width e = WidthBool \<and> Value e = 0)"

definition IsAllOnes :: "ConstantExpr \<Rightarrow> bool" where
  "IsAllOnes e = (Value e = bitmask (Width e))"

text \<open>
  Go's integer conversions: to a narrower type \<open>ucast\<close> truncates; from an unsigned type
  to a wider one \<open>ucast\<close> zero-extends; from a signed type to a wider one \<open>scast\<close>
  sign-extends. \<^verbatim>\<open>/\<close> and \<^verbatim>\<open>%\<close> panic on a zero divisor and truncate towards zero on
  signed operands (the quotient of the most negative value by -1 wraps around).
\<close>

definition go_udiv :: "'a::len word \<Rightarrow> 'a word \<Rightarrow> 'a word res" where
  "go_udiv x y = (if y = 0 then Inl (Panic ''runtime error: integer divide by zero'') else Inr (x div y))"

definition go_sdiv :: "'a::len word \<Rightarrow> 'a word \<Rightarrow> 'a word res" where
  "go_sdiv x y =
     (if y = 0 then Inl (Panic ''runtime error: integer divide by zero'')
      else Inr (word_of_int (sint x sdiv sint y)))"

definition go_urem :: "'a::len word \<Rightarrow> 'a word \<Rightarrow> 'a word res" where
  "go_urem x y = (if y = 0 then Inl (Panic ''runtime error: integer divide by zero'') else Inr (x mod y))"

definition go_srem :: "'a::len word \<Rightarrow> 'a word \<Rightarrow> 'a word res" where
  "go_srem x y =
     (if y = 0 then Inl (Panic ''runtime error: integer divide by zero'')
      else Inr (word_of_int (sint x smod sint y)))"

definition ConstantExpr_Add :: "ConstantExpr \<Rightarrow> ConstantExpr \<Rightarrow> ConstantExpr res" where
  "ConstantExpr_Add e other =
     bind (assert (Width e = Width other) ''add: width mismatch'')
       (\<lambda>_. Inr (NewConstantExpr (Value e + Value other) (Width e)))"

definition ConstantExpr_Sub :: "ConstantExpr \<Rightarrow> ConstantExpr \<Rightarrow> ConstantExpr res" where
  "ConstantExpr_Sub e other =
     bind (assert (Width e = Width other) ''sub: width mismatch'')
       (\<lambda>_. Inr (NewConstantExpr (Value e - Value other) (Width e)))"

definition ConstantExpr_Mul :: "ConstantExpr \<Rightarrow> ConstantExpr \<Rightarrow> ConstantExpr res" where
  "ConstantExpr_Mul e other =
     bind (assert (Width e = Width other) ''mul: width mismatch'')
       (\<lambda>_. Inr (NewConstantExpr (and (Value e * Value other) (bitmask (Width e))) (Width e)))"

definition ConstantExpr_UDiv :: "ConstantExpr \<Rightarrow> ConstantExpr \<Rightarrow> ConstantExpr res" where
  "ConstantExpr_UDiv e other =
     bind (assert (Width e = Width other) ''udiv: width mismatch'')
       (\<lambda>_. if Width e = Width8 then
               bind (go_udiv (ucast (Value e) :: 8 word) (ucast (Value other)))
                 (\<lambda>q. Inr (NewConstantExpr (ucast q) (Width e)))
             else if Width e = Width16 then
               bind (go_udiv (ucast (Value e) :: 16 word) (ucast (Value other)))
                 (\<lambda>q. Inr (NewConstantExpr (ucast q) (Width e)))
             else if Width e = Width32 then
               bind (go_udiv (ucast (Value e) :: 32 word) (ucast (Value other)))
                 (\<lambda>q. Inr (NewConstantExpr (ucast q) (Width e)))
             else if Width e = Width64 then
               bind (go_udiv (Value e) (Value other))
                 (\<lambda>q. Inr (NewConstantExpr q (Width e)))
             else Inl (Panic ''udiv: non-standard width''))"

definition ConstantExpr_SDiv :: "ConstantExpr \<Rightarrow> ConstantExpr \<Rightarrow> ConstantExpr res" where
  "ConstantExpr_SDiv e other =
     bind (assert (Width e = Width other) ''sdiv: width mismatch'')
       (\<lambda>_. if Width e = Width8 then
               bind (go_sdiv (ucast (Value e) :: 8 word) (ucast (Value other)))
                 (\<lambda>q. Inr (NewConstantExpr (scast q) (Width e)))
             else if Width e = Width16 then
               bind (go_sdiv (ucast (Value e) :: 16 word) (ucast (Value other)))
                 (\<lambda>q. Inr (NewConstantExpr (scast q) (Width e)))
             else if Width e = Width32 then
               bind (go_sdiv (ucast (Value e) :: 32 word) (ucast (Value other)))
                 (\<lambda>q. Inr (NewConstantExpr (scast q) (Width e)))
             else if Width e = Width64 then
               bind (go_sdiv (Value e) (Value other))
                 (\<lambda>q. Inr (NewConstantExpr q (Width e)))
             else Inl (Panic ''sdiv: non-standard width''))"

definition ConstantExpr_URem :: "ConstantExpr \<Rightarrow> ConstantExpr \<Rightarrow> ConstantExpr res" where
  "ConstantExpr_URem e other =
     bind (assert (Width e = Width other) ''urem: width mismatch'')
       (\<lambda>_. if Width e = Width8 then
               bind (go_urem (ucast (Value e) :: 8 word) (ucast (Value other)))
                 (\<lambda>q. Inr (NewConstantExpr (ucast q) (Width e)))
             else if Width e = Width16 then
               bind (go_urem (ucast (Value e) :: 16 word) (ucast (Value other)))
                 (\<lambda>q. Inr (NewConstantExpr (ucast q) (Width e)))
             else if Width e = Width32 then
               bind (go_urem (ucast (Value e) :: 32 word) (ucast (Value other)))
                 (\<lambda>q. Inr (NewConstantExpr (ucast q) (Width e)))
             else if Width e = Width64 then
               bind (go_urem (Value e) (Value other))
                 (\<lambda>q. Inr (NewConstantExpr q (Width e)))
             else Inl (Panic ''urem: non-standard width''))"

definition ConstantExpr_SRem :: "ConstantExpr \<Rightarrow> ConstantExpr \<Rightarrow> ConstantExpr res" where
  "ConstantExpr_SRem e other =
     bind (assert (Width e = Width other) ''srem: width mismatch'')
       (\<lambda>_. if Width e = Width8 then
               bind (go_srem (ucast (Value e) :: 8 word) (ucast (Value other)))
                 (\<lambda>q. Inr (NewConstantExpr (scast q) (Width e)))
             else if Width e = Width16 then
               bind (go_srem (ucast (Value e) :: 16 word) (ucast (Value other)))
                 (\<lambda>q. Inr (NewConstantExpr (scast q) (Width e)))
             else if Width e = Width32 then
               bind (go_srem (ucast (Value e) :: 32 word) (ucast (Value other)))
                 (\<lambda>q. Inr (NewConstantExpr (scast q) (Width e)))
             else if Width e = Width64 then
               bind (go_srem (Value e) (Value other))
                 (\<lambda>q. Inr (NewConstantExpr q (Width e)))
             else Inl (Panic ''srem: non-standard width''))"

definition ConstantExpr_And :: "ConstantExpr \<Rightarrow> ConstantExpr \<Rightarrow> ConstantExpr res" where
  "ConstantExpr_And e other =
     bind (assert (Width e = Width other) ''and: width mismatch'')
       (\<lambda>_. Inr (NewConstantExpr (and (Value e) (Value other)) (Width e)))"

definition ConstantExpr_Or :: "ConstantExpr \<Rightarrow> ConstantExpr \<Rightarrow> ConstantExpr res" where
  "ConstantExpr_Or e other =
     bind (assert (Width e = Width other) ''or: width mismatch'')
       (\<lambda>_. Inr (NewConstantExpr (or (Value e) (Value other)) (Width e)))"

definition ConstantExpr_Xor :: "ConstantExpr \<Rightarrow> ConstantExpr \<Rightarrow> ConstantExpr res" where
  "ConstantExpr_Xor e other =
     bind (assert (Width e = Width other) ''xor: width mismatch'')
       (\<lambda>_. Inr (NewConstantExpr (xor (Value e) (Value other)) (Width e)))"

text \<open>A shift count of the operand's size or more gives 0 (or all sign bits), as in Go.\<close>

definition ConstantExpr_Shl :: "ConstantExpr \<Rightarrow> ConstantExpr \<Rightarrow> ConstantExpr res" where
  "ConstantExpr_Shl e other =
     (if Width e = Width8 then
        Inr (NewConstantExpr (ucast (push_bit (unat (Value other)) (ucast (Value e) :: 8 word))) (Width e))
      else if Width e = Width16 then
        Inr (NewConstantExpr (ucast (push_bit (unat (Value other)) (ucast (Value e) :: 16 word))) (Width e))
      else if Width e = Width32 then
        Inr (NewConstantExpr (ucast (push_bit (unat (Value other)) (ucast (Value e) :: 32 word))) (Width e))
      else if Width e = Width64 then
        Inr (NewConstantExpr (push_bit (unat (Value other)) (Value e)) (Width e))
      else Inl (Panic ''shl: non-standard width''))"

definition ConstantExpr_LShr :: "ConstantExpr \<Rightarrow> ConstantExpr \<Rightarrow> ConstantExpr res" where
  "ConstantExpr_LShr e other =
     (if Width e = Width8 then
        Inr (NewConstantExpr (ucast (drop_bit (unat (Value other)) (ucast (Value e) :: 8 word))) (Width e))
      else if Width e = Width16 then
        Inr (NewConstantExpr (ucast (drop_bit (unat (Value other)) (ucast (Value e) :: 16 word))) (Width e))
      else if Width e = Width32 then
        Inr (NewConstantExpr (ucast (drop_bit (unat (Value other)) (ucast (Value e) :: 32 word))) (Width e))
      else if Width e = Width64 then
        Inr (NewConstantExpr (drop_bit (unat (Value other)) (Value e)) (Width e))
      else Inl (Panic ''lshr: non-standard width''))"

definition ConstantExpr_AShr :: "ConstantExpr \<Rightarrow> ConstantExpr \<Rightarrow> ConstantExpr res" where
  "ConstantExpr_AShr e other =
     (if Width e = Width8 then
        Inr (NewConstantExpr (ucast (signed_drop_bit (unat (Value other)) (ucast (Value e) :: 8 word))) (Width e))
      else if Width e = Width16 then
        Inr (NewConstantExpr (ucast (signed_drop_bit (unat (Value other)) (ucast (Value e) :: 16 word))) (Width e))
      else if Width e = Width32 then
        Inr (NewConstantExpr (ucast (signed_drop_bit (unat (Value other)) (ucast (Value e) :: 32 word))) (Width e))
      else if Width e = Width64 then
        Inr (NewConstantExpr (signed_drop_bit (unat (Value other)) (Value e)) (Width e))
      else Inl (Panic ''ashr: non-standard width''))"

definition ConstantExpr_Eq :: "ConstantExpr \<Rightarrow> ConstantExpr \<Rightarrow> ConstantExpr res" where
  "ConstantExpr_Eq e other =
     bind (assert (Width e = Width other) ''eq: width mismatch'')
       (\<lambda>_. if Value e = Value other then Inr (NewConstantExpr 1 WidthBool)
             else Inr (NewConstantExpr 0 WidthBool))"

definition ConstantExpr_Ult :: "ConstantExpr \<Rightarrow> ConstantExpr \<Rightarrow> ConstantExpr res" where
  "ConstantExpr_Ult e other =
     (if Width e = Width8 then
        Inr (NewBoolConstantExpr ((ucast (Value e) :: 8 word) < ucast (Value other)))
      else if Width e = Width16 then
        Inr (NewBoolConstantExpr ((ucast (Value e) :: 16 word) < ucast (Value other)))
      else if Width e = Width32 then
        Inr (NewBoolConstantExpr ((ucast (Value e) :: 32 word) < ucast (Value other)))
      else if Width e = Width64 then
        Inr (NewBoolConstantExpr (Value e < Value other))
      else Inl (Panic ''ult: non-standard width''))"

definition ConstantExpr_Ule :: "ConstantExpr \<Rightarrow> ConstantExpr \<Rightarrow> ConstantExpr res" where
  "ConstantExpr_Ule e other =
     (if Width e = Width8 then
        Inr (NewBoolConstantExpr ((ucast (Value e) :: 8 word) \<le> ucast (Value other)))
      else if Width e = Width16 then
        Inr (NewBoolConstantExpr ((ucast (Value e) :: 16 word) \<le> ucast (Value other)))
      else if Width e = Width32 then
        Inr (NewBoolConstantExpr ((ucast (Value e) :: 32 word) \<le> ucast (Value other)))
      else if Width e = Width64 then
        Inr (NewBoolConstantExpr (Value e \<le> Value other))
      else Inl (Panic ''ule: non-standard width''))"

definition ConstantExpr_Slt :: "ConstantExpr \<Rightarrow> ConstantExpr \<Rightarrow> ConstantExpr res" where
  "ConstantExpr_Slt e other =
     (if Width e = Width8 then
        Inr (NewBoolConstantExpr (word_sless (ucast (Value e) :: 8 word) (ucast (Value other))))
      else if Width e = Width16 then
        Inr (NewBoolConstantExpr (word_sless (ucast (Value e) :: 16 word) (ucast (Value other))))
      else if Width e = Width32 then
        Inr (NewBoolConstantExpr (word_sless (ucast (Value e) :: 32 word) (ucast (Value other))))
      else if Width e = Width64 then
        Inr (NewBoolConstantExpr (word_sless (Value e) (Value other)))
      else Inl (Panic ''slt: non-standard width''))"

definition ConstantExpr_Sle :: "ConstantExpr \<Rightarrow> ConstantExpr \<Rightarrow> ConstantExpr res" where
  "ConstantExpr_Sle e other =
     (if Width e = Width8 then
        Inr (NewBoolConstantExpr (word_sle (ucast (Value e) :: 8 word) (ucast (Value other))))
      else if Width e = Width16 then
        Inr (NewBoolConstantExpr (word_sle (ucast (Value e) :: 16 word) (ucast (Value other))))
      else if Width e = Width32 then
        Inr (NewBoolConstantExpr (word_sle (ucast (Value e) :: 32 word) (ucast (Value other))))
      else if Width e = Width64 then
        Inr (NewBoolConstantExpr (word_sle (Value e) (Value other)))
      else Inl (Panic ''sle: non-standard width''))"

definition ConstantExpr_ZExt :: "ConstantExpr \<Rightarrow> uint \<Rightarrow> ConstantExpr" where
  "ConstantExpr_ZExt e width =
     (if Width e = width then e
      else if width = WidthBool then NewBoolConstantExpr (Value e \<noteq> 0)
      else NewConstantExpr (Value e) width)"

definition ConstantExpr_SExt :: "ConstantExpr \<Rightarrow> uint \<Rightarrow> ConstantExpr res" where
  "ConstantExpr_SExt e width =
     (if Width e = width then Inr e
      else if width = Width8 \<and> Width e = Width16 then
        Inr (NewConstantExpr (scast (scast (ucast (Value e) :: 8 word) :: 16 word)) width)
      else if width = Width8 \<and> Width e = Width32 then
        Inr (NewConstantExpr (scast (scast (ucast (Value e) :: 8 word) :: 32 word)) width)
      else if width = Width8 \<and> Width e = Width64 then
        Inr (NewConstantExpr (scast (scast (ucast (Value e) :: 8 word) :: 64 word)) width)
      else if width = Width16 \<and> Width e = Width8 then
        Inr (NewConstantExpr (scast (ucast (ucast (Value e) :: 16 word) :: 8 word)) width)
      else if width = Width16 \<and> Width e = Width32 then
        Inr (NewConstantExpr (scast (scast (ucast (Value e) :: 16 word) :: 32 word)) width)
      else if width = Width16 \<and> Width e = Width64 then
        Inr (NewConstantExpr (scast (scast (ucast (Value e) :: 16 word) :: 64 word)) width)
      else if width = Width32 \<and> Width e = Width8 then
        Inr (NewConstantExpr (scast (ucast (ucast (Value e) :: 32 word) :: 8 word)) width)
      else if width = Width32 \<and> Width e = Width16 then
        Inr (NewConstantExpr (scast (ucast (ucast (Value e) :: 32 word) :: 16 word)) width)
      else if width = Width32 \<and> Width e = Width64 then
        Inr (NewConstantExpr (scast (scast (ucast (Value e) :: 32 word) :: 64 word)) width)
      else if width = Width64 \<and> Width e = Width8 then
        Inr (NewConstantExpr (scast (ucast (Value e) :: 8 word)) width)
      else if width = Width64 \<and> Width e = Width16 then
        Inr (NewConstantExpr (scast (ucast (Value e) :: 16 word)) width)
      else if width = Width64 \<and> Width e = Width32 then
        Inr (NewConstantExpr (scast (ucast (Value e) :: 32 word)) width)
      else Inl (Panic ''sext: non-standard width''))"

definition ConstantExpr_Not :: "ConstantExpr \<Rightarrow> ConstantExpr" where
  "ConstantExpr_Not e = NewConstantExpr (and (not (Value e)) (bitmask (Width e))) (Width e)"

definition ConstantExpr_Extract :: "ConstantExpr \<Rightarrow> uint \<Rightarrow> uint \<Rightarrow> ConstantExpr" where
  "ConstantExpr_Extract e offset width =
     NewConstantExpr (and (signed_drop_bit (unat offset) (Value e)) (bitmask (Width e))) width"

definition ConstantExpr_Concat :: "ConstantExpr \<Rightarrow> ConstantExpr \<Rightarrow> ConstantExpr" where
  "ConstantExpr_Concat e lsb =
     NewConstantExpr (or (push_bit (unat (Width lsb)) (Value e)) (Value lsb)) (Width e + Width lsb)"

definition IsConstantExpr :: "Expr \<Rightarrow> bool" where
  "IsConstantExpr expr = (case expr of Constant c \<Rightarrow> True | _ \<Rightarrow> False)"


definition IsConstantFalse :: "Expr \<Rightarrow> bool" where
  "IsConstantFalse expr = (case expr of Constant c \<Rightarrow> IsFalse c | _ \<Rightarrow> False)"

section \<open>Executor and execution state: allocation\<close>

text \<open>
  The pointer size of the target comes from the type-size table of \<^verbatim>\<open>go/types\<close>, which is
  not part of the repository: the executor carries it as \<open>PointerSize\<close>, in bytes.
  \<^verbatim>\<open>Sizeof\<close> multiplies by 8, so \<^verbatim>\<open>PointerWidth\<close> is in bits.
\<close>

record Executor =
  PointerSize :: uint

definition PointerWidth :: "Executor \<Rightarrow> uint" where
  "PointerWidth e = PointerSize e * 8"

definition MaxAllocSize :: "Executor \<Rightarrow> uint" where
  "MaxAllocSize e = (if PointerWidth e = 32 then 1 * 1024 * 1024 else 256 * 1024 * 1024)"

text \<open>
  The heap is an \<^verbatim>\<open>immutable.SortedMap\<close> keyed by address: an association list kept in
  ascending key order. \<open>heap_Set\<close> is the map's \<^verbatim>\<open>Set\<close>; \<open>heap_Last\<close> is what the iterator
  returns after \<^verbatim>\<open>Last()\<close> and \<^verbatim>\<open>Prev()\<close>.
\<close>

type_synonym Heap = "(uint64 \<times> Array) list"

fun heap_Set :: "Heap \<Rightarrow> uint64 \<Rightarrow> Array \<Rightarrow> Heap" where
  "heap_Set [] k v = [(k, v)]"
| "heap_Set ((k', v') # h) k v =
     (if k < k' then (k, v) # (k', v') # h
      else if k = k' then (k, v) # h
      else (k', v') # heap_Set h k v)"

fun heap_Last :: "Heap \<Rightarrow> (uint64 \<times> Array) option" where
  "heap_Last [] = None"
| "heap_Last [kv] = Some kv"
| "heap_Last (kv # h) = heap_Last h"

definition heap_Get :: "Heap \<Rightarrow> uint64 \<Rightarrow> Array option" where
  "heap_Get h k = map_of h k"

text \<open>
  Of the execution state, the executor, the heap and the constraint list are modelled;
  the stack, the status and the tree links play no part in allocation or constraints.
\<close>

record ExecutionState =
  executor :: Executor
  heap :: Heap
  constraints :: "Expr list"

definition nextAddr :: "ExecutionState \<Rightarrow> uint64" where
  "nextAddr s =
     (case heap_Last (heap s) of
        Some (k, v) \<Rightarrow> k + Size v
      | None \<Rightarrow> PointerWidth (executor s))"

definition Alloc :: "ExecutionState \<Rightarrow> uint \<Rightarrow> ExecutionState \<times> ConstantExpr \<times> Array" where
  "Alloc s width =
     (let addr = nextAddr s;
          array = NewArray addr width
      in (s\<lparr>heap := heap_Set (heap s) addr array\<rparr>,
          NewConstantExpr addr (PointerWidth (executor s)),
          array))"

section \<open>Canonical comparison\<close>

definition exprKind :: "Expr \<Rightarrow> int" where
  "exprKind expr =
     (case expr of
        Constant c \<Rightarrow> 1
      | NotOptimized src \<Rightarrow> 2
      | Select a index \<Rightarrow> 3
      | Concat msb lsb \<Rightarrow> 4
      | Extract e off w \<Rightarrow> 5
      | Not e \<Rightarrow> 6
      | Cast src w is_signed \<Rightarrow> 7
      | Binary op lhs rhs \<Rightarrow> 8)"

definition compareConstantExpr :: "ConstantExpr \<Rightarrow> ConstantExpr \<Rightarrow> int" where
  "compareConstantExpr a b =
     (if Width a < Width b then -1
      else if Width a > Width b then 1
      else if Value a < Value b then -1
      else if Value a > Value b then 1
      else 0)"

text \<open>The operators in the order of their declaration, which is what \<^verbatim>\<open>a.Op < b.Op\<close> compares.\<close>

definition op_index :: "BinaryOp \<Rightarrow> int" where
  "op_index op =
     (case op of
        ADD \<Rightarrow> 1 | SUB \<Rightarrow> 2 | MUL \<Rightarrow> 3 | UDIV \<Rightarrow> 4 | SDIV \<Rightarrow> 5 | UREM \<Rightarrow> 6 | SREM \<Rightarrow> 7
      | AND \<Rightarrow> 8 | OR \<Rightarrow> 9 | XOR \<Rightarrow> 10 | SHL \<Rightarrow> 11 | LSHR \<Rightarrow> 12 | ASHR \<Rightarrow> 13
      | EQ \<Rightarrow> 16 | NE \<Rightarrow> 17 | ULT \<Rightarrow> 18 | ULE \<Rightarrow> 19 | UGT \<Rightarrow> 20 | UGE \<Rightarrow> 21
      | SLT \<Rightarrow> 22 | SLE \<Rightarrow> 23 | SGT \<Rightarrow> 24 | SGE \<Rightarrow> 25)"

text \<open>
  Expressions and the array of a \<^verbatim>\<open>SelectExpr\<close> are never \<^verbatim>\<open>nil\<close> here; the empty
  update chain is the \<^verbatim>\<open>nil\<close> \<^verbatim>\<open>*ArrayUpdate\<close>.
\<close>

fun CompareExpr :: "Expr \<Rightarrow> Expr \<Rightarrow> int"
  and CompareArray :: "Array \<Rightarrow> Array \<Rightarrow> int"
  and CompareArrayUpdate :: "ArrayUpdate list \<Rightarrow> ArrayUpdate list \<Rightarrow> int" where
  "CompareExpr (Constant a) b =
     (if 1 < exprKind b then -1 else if 1 > exprKind b then 1
      else case b of Constant b' \<Rightarrow> compareConstantExpr a b' | _ \<Rightarrow> 0)"
| "CompareExpr (NotOptimized a) b =
     (if 2 < exprKind b then -1 else if 2 > exprKind b then 1
      else case b of NotOptimized b' \<Rightarrow> CompareExpr a b' | _ \<Rightarrow> 0)"
| "CompareExpr (Select aa ai) b =
     (if 3 < exprKind b then -1 else if 3 > exprKind b then 1
      else case b of
             Select ba bi \<Rightarrow>
               (let cmp = CompareExpr ai bi in if cmp \<noteq> 0 then cmp else CompareArray aa ba)
           | _ \<Rightarrow> 0)"
| "CompareExpr (Concat am al) b =
     (if 4 < exprKind b then -1 else if 4 > exprKind b then 1
      else case b of
             Concat bm bl \<Rightarrow>
               (let cmp = CompareExpr am bm in if cmp \<noteq> 0 then cmp else CompareExpr al bl)
           | _ \<Rightarrow> 0)"
| "CompareExpr (Extract ae ao aw) b =
     (if 5 < exprKind b then -1 else if 5 > exprKind b then 1
      else case b of
             Extract be bo bw \<Rightarrow>
               (if ao < bo then -1 else if ao > bo then 1
                else if aw < bw then -1 else if aw > bw then 1
                else CompareExpr ae be)
           | _ \<Rightarrow> 0)"
| "CompareExpr (Not a) b =
     (if 6 < exprKind b then -1 else if 6 > exprKind b then 1
      else case b of Not b' \<Rightarrow> CompareExpr a b' | _ \<Rightarrow> 0)"
| "CompareExpr (Cast asrc aw asg) b =
     (if 7 < exprKind b then -1 else if 7 > exprKind b then 1
      else case b of
             Cast bsrc bw bsg \<Rightarrow>
               (if asg \<and> \<not> bsg then -1 else if \<not> asg \<and> bsg then 1
                else if aw < bw then -1 else if aw > bw then 1
                else CompareExpr asrc bsrc)
           | _ \<Rightarrow> 0)"
| "CompareExpr (Binary aop al ar) b =
     (if 8 < exprKind b then -1 else if 8 > exprKind b then 1
      else case b of
             Binary bop bl br \<Rightarrow>
               (if op_index aop < op_index bop then -1 else if op_index aop > op_index bop then 1
                else (let cmp = CompareExpr al bl in if cmp \<noteq> 0 then cmp else CompareExpr ar br))
           | _ \<Rightarrow> 0)"
| "CompareArray (Array aid asz aupd) b =
     (if aid < ID b then -1 else if aid > ID b then 1
      else if asz < Size b then -1 else if asz > Size b then 1
      else CompareArrayUpdate aupd (Updates b))"
| "CompareArrayUpdate [] b = (case b of [] \<Rightarrow> 0 | _ \<Rightarrow> -1)"
| "CompareArrayUpdate (ArrayUpdate ai av # as) b =
     (case b of
        [] \<Rightarrow> 1
      | bu # bs \<Rightarrow>
          (let cmp = CompareExpr ai (Index bu) in
           if cmp \<noteq> 0 then cmp
           else (let cmp = CompareExpr av (Val bu) in
                 if cmp \<noteq> 0 then cmp else CompareArrayUpdate as bs)))"

section \<open>Smart constructors\<close>

text \<open>
  The constructors call each other recursively, and the depth of that recursion follows
  the shape of the operands. Every constructor that recurses is written as one step over
  the function that stands for the recursive calls (\<open>nb\<close> for \<^verbatim>\<open>NewBinaryExpr\<close>, \<open>ext\<close> for
  \<^verbatim>\<open>NewExtractExpr\<close>); the constructor itself iterates the step under a recursion bound,
  and answers \<open>Inl OutOfFuel\<close> where the bound is reached. A step that does not recurse
  does not consume the bound.

  A Go function is a sequence of guarded returns: \<open>first_of\<close> takes the first block that
  returns, and the final return otherwise.

  \<^verbatim>\<open>NewConcatExpr\<close> merges two extractions when \<^verbatim>\<open>msb.Expr == lsb.Expr\<close>, a comparison of
  two pointers. \<open>same x y\<close> says that the operands \<open>x\<close> and \<open>y\<close> are one node; one node is
  one value, so the merge is taken when \<open>same me le \<and> me = le\<close>. Every constructor that
  reaches \<^verbatim>\<open>NewConcatExpr\<close> takes \<open>same\<close> as its first argument. \<open>one_node\<close> is the
  comparison when equal operands are always one shared node, \<open>separate_nodes\<close> the one
  when every operand is a node of its own.
\<close>

type_synonym node_eq = "Expr \<Rightarrow> Expr \<Rightarrow> bool"

definition one_node :: node_eq where
  "one_node x y = True"

definition separate_nodes :: node_eq where
  "separate_nodes x y = False"

fun first_of :: "'a option list \<Rightarrow> 'a \<Rightarrow> 'a" where
  "first_of [] d = d"
| "first_of (None # bs) d = first_of bs d"
| "first_of (Some r # bs) d = r"

definition NewConcatExpr_step ::
  "node_eq \<Rightarrow> (Expr \<Rightarrow> uint \<Rightarrow> uint \<Rightarrow> Expr res) \<Rightarrow> Expr \<Rightarrow> Expr \<Rightarrow> Expr res" where
  "NewConcatExpr_step same ext msb lsb =
     first_of
      [case msb of
         Constant m \<Rightarrow> (case lsb of Constant l \<Rightarrow> Some (Inr (Constant (ConstantExpr_Concat m l))) | _ \<Rightarrow> None)
       | _ \<Rightarrow> None,
       case msb of
         Extract me mo mw \<Rightarrow>
           (case lsb of
              Extract le lo lw \<Rightarrow>
                if same me le \<and> me = le \<and> lo + lw = mo then Some (ext me lo (mw + lw)) else None
            | _ \<Rightarrow> None)
       | _ \<Rightarrow> None]
      (Inr (Concat msb lsb))"

definition NewExtractExpr_step ::
  "node_eq \<Rightarrow> (Expr \<Rightarrow> uint \<Rightarrow> uint \<Rightarrow> Expr res) \<Rightarrow> Expr \<Rightarrow> uint \<Rightarrow> uint \<Rightarrow> Expr res" where
  "NewExtractExpr_step same ext expr offset width =
     (let kw = ExprWidth expr in
      bind (assert (width > 0) ''extract width cannot be zero'') (\<lambda>_.
      bind (assert (offset + width \<le> kw) ''extract out of bounds'') (\<lambda>_.
        if width = kw then Inr expr
        else case expr of
          Constant c \<Rightarrow> Inr (Constant (ConstantExpr_Extract c offset width))
        | Concat msb lsb \<Rightarrow>
            if offset \<ge> ExprWidth lsb then ext msb (offset - ExprWidth lsb) width
            else if offset + width \<le> ExprWidth lsb then ext lsb offset width
            else bind (ext msb 0 (width - ExprWidth lsb + offset)) (\<lambda>hi.
                 bind (ext lsb offset (ExprWidth msb - offset)) (\<lambda>lo.
                   NewConcatExpr_step same ext hi lo))
        | _ \<Rightarrow> Inr (Extract expr offset width))))"

primrec NewExtractExpr :: "node_eq \<Rightarrow> nat \<Rightarrow> Expr \<Rightarrow> uint \<Rightarrow> uint \<Rightarrow> Expr res" where
  "NewExtractExpr same 0 = NewExtractExpr_step same (\<lambda>expr offset width. Inl OutOfFuel)"
| "NewExtractExpr same (Suc n) = NewExtractExpr_step same (NewExtractExpr same n)"

definition NewConcatExpr :: "node_eq \<Rightarrow> nat \<Rightarrow> Expr \<Rightarrow> Expr \<Rightarrow> Expr res" where
  "NewConcatExpr same n = NewConcatExpr_step same (NewExtractExpr same n)"

definition NewNotExpr :: "Expr \<Rightarrow> Expr" where
  "NewNotExpr expr = (case expr of Constant c \<Rightarrow> Constant (ConstantExpr_Not c) | _ \<Rightarrow> Not expr)"

definition newZExtExpr :: "node_eq \<Rightarrow> nat \<Rightarrow> Expr \<Rightarrow> uint \<Rightarrow> Expr res" where
  "newZExtExpr same n src w =
     (let sw = ExprWidth src in
      if w = sw then Inr src
      else if w < sw then NewExtractExpr same n src 0 w
      else case src of
        Constant c \<Rightarrow> Inr (Constant (ConstantExpr_ZExt c w))
      | _ \<Rightarrow> Inr (Cast src w False))"

definition newSExtExpr :: "node_eq \<Rightarrow> nat \<Rightarrow> Expr \<Rightarrow> uint \<Rightarrow> Expr res" where
  "newSExtExpr same n src w =
     (let sw = ExprWidth src in
      if w = sw then Inr src
      else if w < sw then NewExtractExpr same n src 0 w
      else case src of
        Constant c \<Rightarrow> bind (ConstantExpr_SExt c w) (\<lambda>r. Inr (Constant r))
      | _ \<Rightarrow> Inr (Cast src w True))"

definition NewCastExpr :: "node_eq \<Rightarrow> nat \<Rightarrow> Expr \<Rightarrow> uint \<Rightarrow> bool \<Rightarrow> Expr res" where
  "NewCastExpr same n src width is_signed =
     (if is_signed then newSExtExpr same n src width else newZExtExpr same n src width)"

type_synonym binary_ctor = "BinaryOp \<Rightarrow> Expr \<Rightarrow> Expr \<Rightarrow> Expr res"

definition lift_const :: "ConstantExpr res \<Rightarrow> Expr res" where
  "lift_const r = bind r (\<lambda>c. Inr (Constant c))"

definition NewIsZeroExpr :: "binary_ctor \<Rightarrow> Expr \<Rightarrow> Expr res" where
  "NewIsZeroExpr nb other = nb EQ other (Constant (NewConstantExpr 0 (ExprWidth other)))"

definition newAddExpr :: "binary_ctor \<Rightarrow> Expr \<Rightarrow> Expr \<Rightarrow> Expr res" where
  "newAddExpr nb lhs0 rhs0 =
     (let (lhs, rhs) = (if \<not> IsConstantExpr lhs0 \<and> IsConstantExpr rhs0 then (rhs0, lhs0) else (lhs0, rhs0)) in
      first_of
       [if ExprWidth lhs = WidthBool then Some (nb XOR lhs rhs) else None,
        case lhs of
          Constant l \<Rightarrow>
            if Value l = 0 then Some (Inr rhs)
            else (case rhs of Constant r \<Rightarrow> Some (lift_const (ConstantExpr_Add l r)) | _ \<Rightarrow> None)
        | _ \<Rightarrow> None,
        case lhs of
          Constant l \<Rightarrow>
            (case rhs of
               Binary op rl rr \<Rightarrow>
                 if op = ADD \<and> IsConstantExpr rl then
                   Some (bind (nb ADD lhs rl) (\<lambda>k. nb ADD k rr))
                 else if op = SUB \<and> IsConstantExpr rl then
                   Some (bind (nb ADD lhs rl) (\<lambda>k. nb SUB k rr))
                 else None
             | _ \<Rightarrow> None)
        | _ \<Rightarrow> None,
        case lhs of
          Binary op ll lr \<Rightarrow>
            if IsConstantExpr ll then
              (if op = ADD then Some (bind (nb ADD lr rhs) (\<lambda>x. nb ADD ll x))
               else if op = SUB then Some (bind (nb SUB rhs lr) (\<lambda>x. nb ADD ll x))
               else None)
            else None
        | _ \<Rightarrow> None,
        case rhs of
          Binary op rl rr \<Rightarrow>
            if IsConstantExpr rl then
              (if op = ADD then Some (bind (nb ADD lhs rr) (\<lambda>x. nb ADD rl x))
               else if op = SUB then Some (bind (nb SUB lhs rr) (\<lambda>x. nb ADD rl x))
               else None)
            else None
        | _ \<Rightarrow> None]
       (Inr (Binary ADD lhs rhs)))"

definition newSubExpr :: "binary_ctor \<Rightarrow> Expr \<Rightarrow> Expr \<Rightarrow> Expr res" where
  "newSubExpr nb lhs rhs =
     first_of
      [if CompareExpr lhs rhs = 0 then Some (Inr (Constant (NewConstantExpr 0 (ExprWidth lhs)))) else None,
       case lhs of
         Constant l \<Rightarrow> (case rhs of Constant r \<Rightarrow> Some (lift_const (ConstantExpr_Sub l r)) | _ \<Rightarrow> None)
       | _ \<Rightarrow> None,
       if ExprWidth lhs = WidthBool then Some (nb XOR lhs rhs) else None,
       case rhs of
         Constant r \<Rightarrow>
           if \<not> IsConstantExpr lhs then
             Some (bind (lift_const (ConstantExpr_Sub (NewConstantExpr 0 (ExprWidth rhs)) r))
                     (\<lambda>k. nb ADD k lhs))
           else None
       | _ \<Rightarrow> None,
       case lhs of
         Constant l \<Rightarrow>
           (case rhs of
              Binary op rl rr \<Rightarrow>
                if op = ADD \<and> IsConstantExpr rl then
                  Some (bind (nb SUB lhs rl) (\<lambda>k. nb SUB k rr))
                else if op = SUB \<and> IsConstantExpr rl then
                  Some (bind (nb SUB lhs rl) (\<lambda>k. nb ADD k rr))
                else None
            | _ \<Rightarrow> None)
       | _ \<Rightarrow> None,
       case lhs of
         Binary op ll lr \<Rightarrow>
           if IsConstantExpr ll then
             (if op = ADD then Some (bind (nb SUB lr rhs) (\<lambda>x. nb ADD ll x))
              else if op = SUB then Some (bind (nb ADD lr rhs) (\<lambda>x. nb SUB ll x))
              else None)
           else None
       | _ \<Rightarrow> None,
       case rhs of
         Binary op rl rr \<Rightarrow>
           if IsConstantExpr rl then
             (if op = ADD then Some (bind (nb SUB lhs rr) (\<lambda>x. nb SUB x rl))
              else if op = SUB then Some (bind (nb ADD lhs rr) (\<lambda>x. nb SUB x rl))
              else None)
           else None
       | _ \<Rightarrow> None]
      (Inr (Binary SUB lhs rhs))"

definition newMulExpr :: "binary_ctor \<Rightarrow> Expr \<Rightarrow> Expr \<Rightarrow> Expr res" where
  "newMulExpr nb lhs0 rhs0 =
     (let (lhs, rhs) = (if IsConstantExpr rhs0 \<and> \<not> IsConstantExpr lhs0 then (rhs0, lhs0) else (lhs0, rhs0)) in
      first_of
       [case lhs of
          Constant l \<Rightarrow> (case rhs of Constant r \<Rightarrow> Some (lift_const (ConstantExpr_Mul l r)) | _ \<Rightarrow> None)
        | _ \<Rightarrow> None,
        if ExprWidth lhs = WidthBool then Some (nb AND lhs rhs) else None,
        case lhs of
          Constant l \<Rightarrow>
            if Value l = 1 then Some (Inr rhs)
            else if Value l = 0 then Some (Inr lhs)
            else None
        | _ \<Rightarrow> None]
       (Inr (Binary MUL lhs rhs)))"

definition newDivExpr :: "BinaryOp \<Rightarrow> Expr \<Rightarrow> Expr \<Rightarrow> Expr res" where
  "newDivExpr op lhs rhs =
     bind (assert (op = UDIV \<or> op = SDIV) ''invalid div op'') (\<lambda>_.
       first_of
        [case lhs of
           Constant l \<Rightarrow>
             (case rhs of
                Constant r \<Rightarrow>
                  if op = UDIV then Some (lift_const (ConstantExpr_UDiv l r))
                  else Some (lift_const (ConstantExpr_SDiv l r))
              | _ \<Rightarrow> None)
         | _ \<Rightarrow> None,
         if ExprWidth lhs = WidthBool then Some (Inr lhs) else None]
        (Inr (Binary op lhs rhs)))"

definition newRemExpr :: "BinaryOp \<Rightarrow> Expr \<Rightarrow> Expr \<Rightarrow> Expr res" where
  "newRemExpr op lhs rhs =
     bind (assert (op = UREM \<or> op = SREM) ''invalid rem op'') (\<lambda>_.
       first_of
        [case lhs of
           Constant l \<Rightarrow>
             (case rhs of
                Constant r \<Rightarrow>
                  if op = UREM then Some (lift_const (ConstantExpr_URem l r))
                  else Some (lift_const (ConstantExpr_SRem l r))
              | _ \<Rightarrow> None)
         | _ \<Rightarrow> None,
         if ExprWidth lhs = WidthBool then Some (Inr (Constant (NewConstantExpr 0 WidthBool))) else None]
        (Inr (Binary op lhs rhs)))"

definition newAndExpr :: "Expr \<Rightarrow> Expr \<Rightarrow> Expr res" where
  "newAndExpr lhs0 rhs0 =
     first_of
      [case lhs0 of
         Constant l \<Rightarrow> (case rhs0 of Constant r \<Rightarrow> Some (lift_const (ConstantExpr_And l r)) | _ \<Rightarrow> None)
       | _ \<Rightarrow> None]
      (let (lhs, rhs) = (if IsConstantExpr lhs0 \<and> \<not> IsConstantExpr rhs0 then (rhs0, lhs0) else (lhs0, rhs0)) in
       first_of
        [case rhs of
           Constant r \<Rightarrow>
             if IsAllOnes r then Some (Inr lhs)
             else if Value r = 0 then Some (Inr rhs)
             else None
         | _ \<Rightarrow> None]
        (Inr (Binary AND lhs rhs)))"

definition newOrExpr :: "Expr \<Rightarrow> Expr \<Rightarrow> Expr res" where
  "newOrExpr lhs0 rhs0 =
     first_of
      [case lhs0 of
         Constant l \<Rightarrow> (case rhs0 of Constant r \<Rightarrow> Some (lift_const (ConstantExpr_Or l r)) | _ \<Rightarrow> None)
       | _ \<Rightarrow> None]
      (let (lhs, rhs) = (if IsConstantExpr lhs0 \<and> \<not> IsConstantExpr rhs0 then (rhs0, lhs0) else (lhs0, rhs0)) in
       first_of
        [case rhs of
           Constant r \<Rightarrow>
             if IsAllOnes r then Some (Inr rhs)
             else if Value r = 0 then Some (Inr lhs)
             else None
         | _ \<Rightarrow> None]
        (Inr (Binary OR lhs rhs)))"

definition newXorExpr :: "Expr \<Rightarrow> Expr \<Rightarrow> Expr res" where
  "newXorExpr lhs0 rhs0 =
     (let (lhs, rhs) = (if \<not> IsConstantExpr lhs0 \<and> IsConstantExpr rhs0 then (rhs0, lhs0) else (lhs0, rhs0)) in
      first_of
       [case lhs of
          Constant l \<Rightarrow>
            if Value l = 0 then Some (Inr rhs)
            else (case rhs of Constant r \<Rightarrow> Some (lift_const (ConstantExpr_Xor l r)) | _ \<Rightarrow> None)
        | _ \<Rightarrow> None]
       (Inr (Binary XOR lhs rhs)))"

definition newShlExpr :: "binary_ctor \<Rightarrow> Expr \<Rightarrow> Expr \<Rightarrow> Expr res" where
  "newShlExpr nb lhs rhs =
     first_of
      [case lhs of
         Constant l \<Rightarrow> (case rhs of Constant r \<Rightarrow> Some (lift_const (ConstantExpr_Shl l r)) | _ \<Rightarrow> None)
       | _ \<Rightarrow> None,
       if ExprWidth lhs = WidthBool then Some (bind (NewIsZeroExpr nb rhs) (\<lambda>z. nb AND lhs z)) else None]
      (Inr (Binary SHL lhs rhs))"

definition newLShrExpr :: "binary_ctor \<Rightarrow> Expr \<Rightarrow> Expr \<Rightarrow> Expr res" where
  "newLShrExpr nb lhs rhs =
     first_of
      [case lhs of
         Constant l \<Rightarrow> (case rhs of Constant r \<Rightarrow> Some (lift_const (ConstantExpr_LShr l r)) | _ \<Rightarrow> None)
       | _ \<Rightarrow> None,
       if ExprWidth lhs = WidthBool then Some (bind (NewIsZeroExpr nb rhs) (\<lambda>z. nb AND lhs z)) else None]
      (Inr (Binary LSHR lhs rhs))"

definition newAShrExpr :: "Expr \<Rightarrow> Expr \<Rightarrow> Expr res" where
  "newAShrExpr lhs rhs =
     first_of
      [case lhs of
         Constant l \<Rightarrow> (case rhs of Constant r \<Rightarrow> Some (lift_const (ConstantExpr_AShr l r)) | _ \<Rightarrow> None)
       | _ \<Rightarrow> None,
       if ExprWidth lhs = WidthBool then Some (Inr lhs) else None]
      (Inr (Binary ASHR lhs rhs))"

definition newEqExpr :: "binary_ctor \<Rightarrow> Expr \<Rightarrow> Expr \<Rightarrow> Expr res" where
  "newEqExpr nb lhs0 rhs0 =
     (let (lhs, rhs) = (if \<not> IsConstantExpr lhs0 \<and> IsConstantExpr rhs0 then (rhs0, lhs0) else (lhs0, rhs0)) in
      first_of
       [case lhs of
          Constant l \<Rightarrow>
            (case rhs of
               Constant r \<Rightarrow> Some (lift_const (ConstantExpr_Eq l r))
             | Binary op rl rr \<Rightarrow>
                 (let width = ExprWidth lhs in
                  if op = EQ then
                    (if width = WidthBool then
                       (if IsTrue l then Some (Inr rhs)
                        else if IsConstantFalse lhs \<and> IsConstantFalse rl then Some (Inr rr)
                        else None)
                     else None)
                  else if op = OR then
                    (if width = WidthBool then
                       (if IsTrue l then Some (Inr rhs)
                        else if ExprWidth rl = WidthBool then
                          Some (bind (NewIsZeroExpr nb rl) (\<lambda>x.
                                bind (NewIsZeroExpr nb rr) (\<lambda>y. nb AND x y)))
                        else None)
                     else None)
                  else if op = ADD then
                    (if IsConstantExpr rl then Some (bind (nb SUB lhs rl) (\<lambda>k. nb EQ k rr)) else None)
                  else if op = SUB then
                    (if IsConstantExpr rl then Some (bind (nb SUB rl lhs) (\<lambda>k. nb EQ k rr)) else None)
                  else None)
             | Cast src cw is_signed \<Rightarrow>
                 (let width = ExprWidth lhs;
                      trunc = ConstantExpr_ZExt l (ExprWidth src) in
                  if is_signed then
                    Some (bind (ConstantExpr_SExt trunc width) (\<lambda>back.
                            if CompareExpr lhs (Constant back) = 0 then nb EQ src (Constant trunc)
                            else Inr (Constant (NewConstantExpr 0 WidthBool))))
                  else
                    Some (if CompareExpr lhs (Constant (ConstantExpr_ZExt trunc width)) = 0
                          then nb EQ src (Constant trunc)
                          else Inr (Constant (NewConstantExpr 0 WidthBool))))
             | _ \<Rightarrow> None)
        | _ \<Rightarrow> None,
        if CompareExpr lhs rhs = 0 then Some (Inr (Constant (NewConstantExpr 1 WidthBool))) else None]
       (Inr (Binary EQ lhs rhs)))"

definition newUltExpr :: "binary_ctor \<Rightarrow> Expr \<Rightarrow> Expr \<Rightarrow> Expr res" where
  "newUltExpr nb lhs rhs =
     first_of
      [case lhs of
         Constant l \<Rightarrow> (case rhs of Constant r \<Rightarrow> Some (lift_const (ConstantExpr_Ult l r)) | _ \<Rightarrow> None)
       | _ \<Rightarrow> None,
       if ExprWidth lhs = WidthBool then Some (bind (NewIsZeroExpr nb lhs) (\<lambda>z. nb AND z rhs)) else None]
      (Inr (Binary ULT lhs rhs))"

definition newUleExpr :: "binary_ctor \<Rightarrow> Expr \<Rightarrow> Expr \<Rightarrow> Expr res" where
  "newUleExpr nb lhs rhs =
     first_of
      [case lhs of
         Constant l \<Rightarrow> (case rhs of Constant r \<Rightarrow> Some (lift_const (ConstantExpr_Ule l r)) | _ \<Rightarrow> None)
       | _ \<Rightarrow> None,
       if ExprWidth lhs = WidthBool then Some (bind (NewIsZeroExpr nb lhs) (\<lambda>z. nb OR z rhs)) else None]
      (Inr (Binary ULE lhs rhs))"

definition newSltExpr :: "binary_ctor \<Rightarrow> Expr \<Rightarrow> Expr \<Rightarrow> Expr res" where
  "newSltExpr nb lhs rhs =
     first_of
      [case lhs of
         Constant l \<Rightarrow> (case rhs of Constant r \<Rightarrow> Some (lift_const (ConstantExpr_Slt l r)) | _ \<Rightarrow> None)
       | _ \<Rightarrow> None,
       if ExprWidth lhs = WidthBool then Some (bind (NewIsZeroExpr nb rhs) (\<lambda>z. nb AND lhs z)) else None]
      (Inr (Binary SLT lhs rhs))"

definition newSleExpr :: "binary_ctor \<Rightarrow> Expr \<Rightarrow> Expr \<Rightarrow> Expr res" where
  "newSleExpr nb lhs rhs =
     first_of
      [case lhs of
         Constant l \<Rightarrow> (case rhs of Constant r \<Rightarrow> Some (lift_const (ConstantExpr_Sle l r)) | _ \<Rightarrow> None)
       | _ \<Rightarrow> None,
       if ExprWidth lhs = WidthBool then Some (bind (NewIsZeroExpr nb rhs) (\<lambda>z. nb OR lhs z)) else None]
      (Inr (Binary SLE lhs rhs))"

definition NewBinaryExpr_step :: "binary_ctor \<Rightarrow> binary_ctor" where
  "NewBinaryExpr_step nb op lhs rhs =
     (case op of
        ADD \<Rightarrow> newAddExpr nb lhs rhs
      | SUB \<Rightarrow> newSubExpr nb lhs rhs
      | MUL \<Rightarrow> newMulExpr nb lhs rhs
      | UDIV \<Rightarrow> newDivExpr op lhs rhs
      | SDIV \<Rightarrow> newDivExpr op lhs rhs
      | UREM \<Rightarrow> newRemExpr op lhs rhs
      | SREM \<Rightarrow> newRemExpr op lhs rhs
      | AND \<Rightarrow> newAndExpr lhs rhs
      | OR \<Rightarrow> newOrExpr lhs rhs
      | XOR \<Rightarrow> newXorExpr lhs rhs
      | SHL \<Rightarrow> newShlExpr nb lhs rhs
      | LSHR \<Rightarrow> newLShrExpr nb lhs rhs
      | ASHR \<Rightarrow> newAShrExpr lhs rhs
      | EQ \<Rightarrow> newEqExpr nb lhs rhs
      | NE \<Rightarrow> bind (nb EQ lhs rhs) (\<lambda>e. nb EQ (Constant (NewConstantExpr 0 WidthBool)) e)
      | ULT \<Rightarrow> newUltExpr nb lhs rhs
      | UGT \<Rightarrow> newUltExpr nb rhs lhs
      | ULE \<Rightarrow> newUleExpr nb lhs rhs
      | UGE \<Rightarrow> newUleExpr nb rhs lhs
      | SLT \<Rightarrow> newSltExpr nb lhs rhs
      | SGT \<Rightarrow> newSltExpr nb rhs lhs
      | SLE \<Rightarrow> newSleExpr nb lhs rhs
      | SGE \<Rightarrow> newSleExpr nb rhs lhs)"

primrec NewBinaryExpr :: "nat \<Rightarrow> binary_ctor" where
  "NewBinaryExpr 0 = NewBinaryExpr_step (\<lambda>op lhs rhs. Inl OutOfFuel)"
| "NewBinaryExpr (Suc n) = NewBinaryExpr_step (NewBinaryExpr n)"

section \<open>Symbolic arrays\<close>

text \<open>
  This section has the arrays as values: an \<open>Array\<close> is the header with the chain of
  updates that one reaches from it, newest first. That is all a read needs.
  \<^verbatim>\<open>storeByte\<close> edits the chain of its receiver in place: \<open>storeByte\<close> returns the
  receiver as it is after the call. The pointer structure behind the chains, which
  \<^verbatim>\<open>Clone\<close> shares between arrays and \<^verbatim>\<open>storeByte\<close> edits, is the subject of the next
  section. A \<^verbatim>\<open>SelectExpr\<close> holds the array as it is when the expression is built.
\<close>

definition NewSelectExpr :: "Array \<Rightarrow> Expr \<Rightarrow> Expr" where
  "NewSelectExpr a index = Select a index"

definition NewArrayUpdate :: "node_eq \<Rightarrow> nat \<Rightarrow> Expr \<Rightarrow> Expr \<Rightarrow> ArrayUpdate res" where
  "NewArrayUpdate same n index v =
     bind (newZExtExpr same n index Width64) (\<lambda>i.
     bind (newZExtExpr same n v Width8) (\<lambda>b. Inr (ArrayUpdate i b)))"

text \<open>The loop of \<^verbatim>\<open>selectByte\<close> over the chain; \<open>None\<close> is the fall-through to the select expression.\<close>

fun selectByte_loop :: "nat \<Rightarrow> Expr \<Rightarrow> ArrayUpdate list \<Rightarrow> Expr option res" where
  "selectByte_loop n index [] = Inr None"
| "selectByte_loop n index (upd # rest) =
     bind (NewBinaryExpr n EQ index (Index upd)) (\<lambda>c.
       case c of
         Constant cond \<Rightarrow> if IsTrue cond then Inr (Some (Val upd)) else selectByte_loop n index rest
       | _ \<Rightarrow> Inr None)"

definition selectByte :: "nat \<Rightarrow> Array \<Rightarrow> Expr \<Rightarrow> Expr res" where
  "selectByte n a index =
     bind (assert (ExprWidth index = 64) ''selectByte: invalid array index width'') (\<lambda>_.
     bind (selectByte_loop n index (Updates a)) (\<lambda>found.
       case found of
         Some v \<Rightarrow> Inr v
       | None \<Rightarrow> Inr (NewSelectExpr a index)))"

text \<open>
  The loop of \<^verbatim>\<open>storeByte\<close> that unlinks earlier updates of the same constant index,
  up to the first update with a symbolic index.
\<close>

fun storeByte_remove :: "ConstantExpr \<Rightarrow> ArrayUpdate list \<Rightarrow> ArrayUpdate list" where
  "storeByte_remove index [] = []"
| "storeByte_remove index (upd # rest) =
     (case Index upd of
        Constant updIndex \<Rightarrow>
          if Value index = Value updIndex then storeByte_remove index rest
          else upd # storeByte_remove index rest
      | _ \<Rightarrow> upd # rest)"

definition storeByte :: "node_eq \<Rightarrow> nat \<Rightarrow> Array \<Rightarrow> Expr \<Rightarrow> Expr \<Rightarrow> Array res" where
  "storeByte same n a index v =
     bind (assert (ExprWidth index = 64) ''storeByte: invalid array index width'') (\<lambda>_.
     bind (case index of
             Constant c \<Rightarrow> assert (Value c < Size a) ''storeByte: index out of bounds''
           | _ \<Rightarrow> Inr ()) (\<lambda>_.
     bind (NewArrayUpdate same n index v) (\<lambda>upd.
       case index of
         Constant c \<Rightarrow> Inr (Array (ID a) (Size a) (upd # storeByte_remove c (Updates a)))
       | _ \<Rightarrow> Inr (Array (ID a) (Size a) (upd # Updates a)))))"

text \<open>
  \<^verbatim>\<open>for i, n := uint64(0), uint64(width)/8; i != n; i++\<close> visits \<open>0, \<dots>, n - 1\<close>;
  \<open>for_each\<close> runs a loop body over these counters and stops at the first panic.
\<close>

definition loop_counters :: "uint64 \<Rightarrow> uint64 list" where
  "loop_counters n = map word_of_nat [0 ..< unat n]"

fun for_each :: "'i list \<Rightarrow> 's \<Rightarrow> ('i \<Rightarrow> 's \<Rightarrow> 's res) \<Rightarrow> 's res" where
  "for_each [] s body = Inr s"
| "for_each (i # is) s body = bind (body i s) (\<lambda>s'. for_each is s' body)"

definition Select_byte_step ::
  "node_eq \<Rightarrow> nat \<Rightarrow> Array \<Rightarrow> Expr \<Rightarrow> bool \<Rightarrow> uint64 \<Rightarrow> uint64 \<Rightarrow> Expr option \<Rightarrow> Expr option res" where
  "Select_byte_step same fuel a offset isLittleEndian n i result =
     (let byteOffset = (if \<not> isLittleEndian then n - i - 1 else i) in
      bind (NewBinaryExpr fuel ADD offset (Constant (NewConstantExpr64 byteOffset))) (\<lambda>index.
      bind (selectByte fuel a index) (\<lambda>v.
        if i = 0 then Inr (Some v)
        else case result of
               Some r \<Rightarrow> bind (NewConcatExpr same fuel v r) (\<lambda>c. Inr (Some c))
             | None \<Rightarrow> Inl (Panic ''nil expression''))))"

text \<open>\<^verbatim>\<open>Select\<close> returns the \<^verbatim>\<open>nil\<close> expression, \<open>None\<close>, when its loop does not run.\<close>

definition Select_array :: "node_eq \<Rightarrow> nat \<Rightarrow> Array \<Rightarrow> Expr \<Rightarrow> uint \<Rightarrow> bool \<Rightarrow> Expr option res" where
  "Select_array same fuel a offset0 width isLittleEndian =
     bind (assert (width > 0) ''select: invalid width'') (\<lambda>_.
     bind (newZExtExpr same fuel offset0 Width64) (\<lambda>offset.
       if width = WidthBool then
         bind (selectByte fuel a offset) (\<lambda>b.
         bind (NewExtractExpr same fuel b 0 WidthBool) (\<lambda>r. Inr (Some r)))
       else
         (let n = width div 8 in
          for_each (loop_counters n) None (Select_byte_step same fuel a offset isLittleEndian n))))"

text \<open>
  What \<^verbatim>\<open>Store\<close> does to the chain of the array it returns, on arrays as values:
  \<open>Store_chain\<close> runs \<open>storeByte\<close> from the chain of the receiver, which is where the
  clone starts. \<^verbatim>\<open>Store\<close> itself, on the pointer structure, follows in the next section.
\<close>

definition Store_byte_chain ::
  "node_eq \<Rightarrow> nat \<Rightarrow> Expr \<Rightarrow> Expr \<Rightarrow> bool \<Rightarrow> uint64 \<Rightarrow> uint64 \<Rightarrow> Array \<Rightarrow> Array res" where
  "Store_byte_chain same fuel offset v isLittleEndian n i other =
     (let byteOffset = (if \<not> isLittleEndian then n - i - 1 else i) in
      bind (NewBinaryExpr fuel ADD offset (Constant (NewConstantExpr64 byteOffset))) (\<lambda>index.
      bind (NewExtractExpr same fuel v (i * 8) Width8) (\<lambda>b.
        storeByte same fuel other index b)))"

definition Store_chain :: "node_eq \<Rightarrow> nat \<Rightarrow> Array \<Rightarrow> Expr \<Rightarrow> Expr \<Rightarrow> bool \<Rightarrow> Array res" where
  "Store_chain same fuel other offset0 v isLittleEndian =
     bind (newZExtExpr same fuel offset0 Width64) (\<lambda>offset.
       let width = ExprWidth v in
       bind (assert (width > 0) ''store: invalid width'') (\<lambda>_.
         if width = WidthBool then storeByte same fuel other offset v
         else
           (let n = width div 8 in
            for_each (loop_counters n) other (Store_byte_chain same fuel offset v isLittleEndian n))))"

section \<open>Arrays in memory\<close>

text \<open>
  In the source an array is a header, \<^verbatim>\<open>Array{ID, Size, Updates}\<close>, whose \<^verbatim>\<open>Updates\<close> points
  to a linked list of nodes \<^verbatim>\<open>ArrayUpdate{Index, Value, Next}\<close>. \<^verbatim>\<open>Clone\<close> copies the header
  only, so the clone and the original share every node; \<^verbatim>\<open>storeByte\<close> unlinks a node by
  assigning \<^verbatim>\<open>prev.Next\<close>, and every array that reaches \<open>prev\<close> sees the assignment.

  The memory is the list of the nodes allocated so far: the address of a node is its
  position, and an allocation appends. A function that edits the memory returns its
  result together with the memory it leaves, also when it panics. \<open>view\<close> reads the array
  as a value: the header with the chain that \<^verbatim>\<open>Updates\<close> leads to.
\<close>

record UpdateNode =
  node_Index :: Expr
  node_Value :: Expr
  node_Next :: "nat option"

type_synonym memory = "UpdateNode list"

record ArrayHeader =
  hdr_ID :: uint64
  hdr_Size :: uint
  hdr_Updates :: "nat option"

type_synonym 'a effect = "(error + 'a) \<times> memory"

definition Clone :: "ArrayHeader \<Rightarrow> ArrayHeader" where
  "Clone a = \<lparr>hdr_ID = hdr_ID a, hdr_Size = hdr_Size a, hdr_Updates = hdr_Updates a\<rparr>"

text \<open>
  Following \<^verbatim>\<open>Next\<close> from a pointer, for at most \<open>k\<close> nodes. In a memory where every \<^verbatim>\<open>Next\<close>
  points to an older node no chain is longer than the memory.
\<close>

fun chain_from :: "nat \<Rightarrow> memory \<Rightarrow> nat option \<Rightarrow> ArrayUpdate list" where
  "chain_from k mem None = []"
| "chain_from 0 mem (Some p) = []"
| "chain_from (Suc k) mem (Some p) =
     (if p < length mem
      then ArrayUpdate (node_Index (mem ! p)) (node_Value (mem ! p))
             # chain_from k mem (node_Next (mem ! p))
      else [])"

definition view :: "memory \<Rightarrow> ArrayHeader \<Rightarrow> Array" where
  "view mem a = Array (hdr_ID a) (hdr_Size a) (chain_from (length mem) mem (hdr_Updates a))"

text \<open>
  The second loop of \<^verbatim>\<open>storeByte\<close>, \<^verbatim>\<open>for upd := prev.Next; upd != nil; upd = upd.Next\<close>,
  with its assignment \<^verbatim>\<open>prev.Next = upd.Next\<close>. On a chain with a cycle the loop of the
  source may run forever; the model stops after \<open>k\<close> nodes with \<open>OutOfFuel\<close>.
\<close>

fun storeByte_unlink :: "nat \<Rightarrow> ConstantExpr \<Rightarrow> nat \<Rightarrow> nat option \<Rightarrow> memory \<Rightarrow> memory res" where
  "storeByte_unlink k index prev None mem = Inr mem"
| "storeByte_unlink 0 index prev (Some upd) mem = Inl OutOfFuel"
| "storeByte_unlink (Suc k) index prev (Some upd) mem =
     (if \<not> (upd < length mem \<and> prev < length mem) then
        Inl (Panic ''invalid memory address or nil pointer dereference'')
      else
        case node_Index (mem ! upd) of
          Constant updIndex \<Rightarrow>
            if Value index = Value updIndex then
              (let mem' = mem[prev := (mem ! prev)\<lparr>node_Next := node_Next (mem ! upd)\<rparr>]
               in storeByte_unlink k index prev (node_Next (mem' ! upd)) mem')
            else storeByte_unlink k index upd (node_Next (mem ! upd)) mem
        | _ \<Rightarrow> Inr mem)"

text \<open>
  \<^verbatim>\<open>storeByte\<close> on the pointer structure. The two assertions and \<^verbatim>\<open>NewArrayUpdate\<close> come
  before the first assignment; the new node is allocated at the end of the memory and
  becomes the head of the receiver, and the loop starts with \<open>prev\<close> at the new node.
\<close>

definition storeByte_mem ::
  "node_eq \<Rightarrow> nat \<Rightarrow> ArrayHeader \<Rightarrow> Expr \<Rightarrow> Expr \<Rightarrow> memory \<Rightarrow> ArrayHeader effect" where
  "storeByte_mem same n a index v mem =
     (case bind (assert (ExprWidth index = 64) ''storeByte: invalid array index width'') (\<lambda>_.
           bind (case index of
                   Constant c \<Rightarrow> assert (Value c < hdr_Size a) ''storeByte: index out of bounds''
                 | _ \<Rightarrow> Inr ()) (\<lambda>_.
             NewArrayUpdate same n index v)) of
        Inl e \<Rightarrow> (Inl e, mem)
      | Inr upd \<Rightarrow>
          (let p = length mem;
               mem1 = mem @ [\<lparr>node_Index = Index upd, node_Value = Val upd, node_Next = hdr_Updates a\<rparr>];
               a1 = a\<lparr>hdr_Updates := Some p\<rparr>
           in case index of
                Constant c \<Rightarrow>
                  (case storeByte_unlink (length mem1) c p (hdr_Updates a) mem1 of
                     Inl e \<Rightarrow> (Inl e, mem1)
                   | Inr mem2 \<Rightarrow> (Inr a1, mem2))
              | _ \<Rightarrow> (Inr a1, mem1)))"

fun for_each_mem ::
  "'i list \<Rightarrow> 's \<Rightarrow> ('i \<Rightarrow> 's \<Rightarrow> memory \<Rightarrow> 's effect) \<Rightarrow> memory \<Rightarrow> 's effect" where
  "for_each_mem [] s body mem = (Inr s, mem)"
| "for_each_mem (i # is) s body mem =
     (case body i s mem of
        (Inl e, mem') \<Rightarrow> (Inl e, mem')
      | (Inr s', mem') \<Rightarrow> for_each_mem is s' body mem')"

definition Store_byte_step ::
  "node_eq \<Rightarrow> nat \<Rightarrow> Expr \<Rightarrow> Expr \<Rightarrow> bool \<Rightarrow> uint64 \<Rightarrow> uint64 \<Rightarrow> ArrayHeader \<Rightarrow> memory
     \<Rightarrow> ArrayHeader effect" where
  "Store_byte_step same fuel offset v isLittleEndian n i other mem =
     (let byteOffset = (if \<not> isLittleEndian then n - i - 1 else i) in
      case bind (NewBinaryExpr fuel ADD offset (Constant (NewConstantExpr64 byteOffset))) (\<lambda>index.
           bind (NewExtractExpr same fuel v (i * 8) Width8) (\<lambda>b. Inr (index, b))) of
        Inl e \<Rightarrow> (Inl e, mem)
      | Inr (index, b) \<Rightarrow> storeByte_mem same fuel other index b mem)"

text \<open>
  \<^verbatim>\<open>Store\<close>: the receiver \<open>a\<close> is not assigned to, the clone \<open>other\<close> is what the calls of
  \<^verbatim>\<open>storeByte\<close> work on and what is returned; the nodes that \<open>a\<close> reaches are in the
  memory that the calls edit.
\<close>

definition Store ::
  "node_eq \<Rightarrow> nat \<Rightarrow> ArrayHeader \<Rightarrow> Expr \<Rightarrow> Expr \<Rightarrow> bool \<Rightarrow> memory \<Rightarrow> ArrayHeader effect" where
  "Store same fuel a offset0 v isLittleEndian mem =
     (let other = Clone a in
      case bind (newZExtExpr same fuel offset0 Width64) (\<lambda>offset.
           bind (assert (ExprWidth v > 0) ''store: invalid width'') (\<lambda>_. Inr offset)) of
        Inl e \<Rightarrow> (Inl e, mem)
      | Inr offset \<Rightarrow>
          if ExprWidth v = WidthBool then storeByte_mem same fuel other offset v mem
          else
            (let n = ExprWidth v div 8 in
             for_each_mem (loop_counters n) other
               (Store_byte_step same fuel offset v isLittleEndian n) mem))"

section \<open>Constraints\<close>



section \<open>Executor: binary operations\<close>

text \<open>
  The operand type of an \<^verbatim>\<open>ssa.BinOp\<close>, as \<^verbatim>\<open>executeBinOpInstr\<close> inspects it: an
  interface, a basic type with its \<^verbatim>\<open>BasicInfo\<close> flags, or anything else. The flags are
  those of \<^verbatim>\<open>go/types\<close>, the standard library: \<^verbatim>\<open>1 << iota\<close> from \<^verbatim>\<open>IsBoolean\<close> on.
\<close>

type_synonym BasicInfo = "32 word"

definition IsBoolean :: BasicInfo where "IsBoolean = 1"
definition IsInteger :: BasicInfo where "IsInteger = 2"
definition IsUnsigned :: BasicInfo where "IsUnsigned = 4"
definition IsFloat :: BasicInfo where "IsFloat = 8"
definition IsComplex :: BasicInfo where "IsComplex = 16"
definition IsString :: BasicInfo where "IsString = 32"

datatype OperandType = InterfaceType | BasicType BasicInfo | OtherType

datatype Token =
    T_ADD | T_SUB | T_MUL | T_QUO | T_REM | T_AND | T_OR | T_XOR | T_SHL | T_SHR | T_AND_NOT
  | T_EQL | T_NEQ | T_LSS | T_LEQ | T_GTR | T_GEQ | T_LAND | T_LOR

text \<open>
  \<^verbatim>\<open>executeBinOpInstrInteger\<close> binds the expression it builds to the instruction; the
  model returns that expression, or the error the function returns.
\<close>

datatype exec_error = Fatal error | Err string

definition bind_instr :: "Expr res \<Rightarrow> exec_error + Expr" where
  "bind_instr r = (case r of Inl e \<Rightarrow> Inl (Fatal e) | Inr x \<Rightarrow> Inr x)"

definition executeBinOpInstrInteger ::
  "nat \<Rightarrow> Token \<Rightarrow> Expr \<Rightarrow> Expr \<Rightarrow> bool \<Rightarrow> exec_error + Expr" where
  "executeBinOpInstrInteger fuel op x y is_signed =
     (case op of
        T_ADD \<Rightarrow> bind_instr (NewBinaryExpr fuel ADD x y)
      | T_SUB \<Rightarrow> bind_instr (NewBinaryExpr fuel SUB x y)
      | T_MUL \<Rightarrow> bind_instr (NewBinaryExpr fuel MUL x y)
      | T_QUO \<Rightarrow>
          if is_signed then bind_instr (NewBinaryExpr fuel SDIV x y)
          else bind_instr (NewBinaryExpr fuel UDIV x y)
      | T_REM \<Rightarrow>
          if is_signed then bind_instr (NewBinaryExpr fuel SREM x y)
          else bind_instr (NewBinaryExpr fuel UREM x y)
      | T_AND \<Rightarrow> bind_instr (NewBinaryExpr fuel AND x y)
      | T_OR \<Rightarrow> bind_instr (NewBinaryExpr fuel OR x y)
      | T_XOR \<Rightarrow> bind_instr (NewBinaryExpr fuel XOR x y)
      | T_SHL \<Rightarrow> bind_instr (NewBinaryExpr fuel SHL x y)
      | T_SHR \<Rightarrow>
          if is_signed then bind_instr (NewBinaryExpr fuel ASHR x y)
          else bind_instr (NewBinaryExpr fuel LSHR x y)
      | T_AND_NOT \<Rightarrow> bind_instr (NewBinaryExpr fuel XOR x y)
      | T_EQL \<Rightarrow> bind_instr (NewBinaryExpr fuel EQ x y)
      | T_NEQ \<Rightarrow> bind_instr (NewBinaryExpr fuel NE x y)
      | T_LSS \<Rightarrow>
          if is_signed then bind_instr (NewBinaryExpr fuel SLT x y)
          else bind_instr (NewBinaryExpr fuel ULT x y)
      | T_LEQ \<Rightarrow>
          if is_signed then bind_instr (NewBinaryExpr fuel SLE x y)
          else bind_instr (NewBinaryExpr fuel ULE x y)
      | T_GTR \<Rightarrow>
          if is_signed then bind_instr (NewBinaryExpr fuel SGT x y)
          else bind_instr (NewBinaryExpr fuel UGT x y)
      | T_GEQ \<Rightarrow>
          if is_signed then bind_instr (NewBinaryExpr fuel SGE x y)
          else bind_instr (NewBinaryExpr fuel UGE x y)
      | _ \<Rightarrow> Inl (Err ''invalid integer binop operator''))"

text \<open>
  \<^verbatim>\<open>executeBinOpInstr\<close> passes \<^verbatim>\<open>types.IsUnsigned == 0\<close> as the \<^verbatim>\<open>signed\<close> argument of
  \<^verbatim>\<open>executeBinOpInstrInteger\<close>. The handlers for the other operand types are not modelled:
  \<open>BinOpHandler\<close> names the one that is called.
\<close>

datatype BinOpHandler =
    HandleInterface | HandleBoolean | HandleInteger bool | HandleFloat | HandleComplex
  | HandleString | HandleError string

definition executeBinOpInstr_handler :: "OperandType \<Rightarrow> BinOpHandler" where
  "executeBinOpInstr_handler typ =
     (case typ of
        InterfaceType \<Rightarrow> HandleInterface
      | BasicType info \<Rightarrow>
          if and info IsBoolean \<noteq> 0 then HandleBoolean
          else if and info IsInteger \<noteq> 0 then HandleInteger (IsUnsigned = 0)
          else if and info IsFloat \<noteq> 0 then HandleFloat
          else if and info IsComplex \<noteq> 0 then HandleComplex
          else if and info IsString \<noteq> 0 then HandleString
          else HandleError ''unexpected binop basic type''
      | OtherType \<Rightarrow> HandleError ''unexpected binop X type'')"

definition executeBinOpInstr ::
  "nat \<Rightarrow> OperandType \<Rightarrow> Token \<Rightarrow> Expr \<Rightarrow> Expr \<Rightarrow> (exec_error + Expr) option" where
  "executeBinOpInstr fuel typ op x y =
     (case executeBinOpInstr_handler typ of
        HandleInteger is_signed \<Rightarrow> Some (executeBinOpInstrInteger fuel op x y is_signed)
      | _ \<Rightarrow> None)"

section \<open>Notions used to state the properties\<close>

text \<open>The heap's keys are in strictly ascending order: the invariant of the sorted map.\<close>

definition heap_sorted :: "Heap \<Rightarrow> bool" where
  "heap_sorted h = sorted_wrt (<) (map fst h)"




text \<open>
  An expression is in canonical compare form when every compare node in it has one of the
  operators \<^verbatim>\<open>EQ\<close>, \<^verbatim>\<open>ULT\<close>, \<^verbatim>\<open>ULE\<close>, \<^verbatim>\<open>SLT\<close>, \<^verbatim>\<open>SLE\<close>. The update chains of
  the arrays under a \<^verbatim>\<open>SelectExpr\<close> are not part of the expression tree.
\<close>

fun canonical :: "Expr \<Rightarrow> bool" where
  "canonical (Constant c) = True"
| "canonical (NotOptimized src) = canonical src"
| "canonical (Select a index) = canonical index"
| "canonical (Concat msb lsb) = (canonical msb \<and> canonical lsb)"
| "canonical (Extract e off w) = canonical e"
| "canonical (Not e) = canonical e"
| "canonical (Cast src w is_signed) = canonical src"
| "canonical (Binary op lhs rhs) =
     ((IsCompare op \<longrightarrow> op \<in> {EQ, ULT, ULE, SLT, SLE}) \<and> canonical lhs \<and> canonical rhs)"

definition preserves_canonical :: "binary_ctor \<Rightarrow> bool" where
  "preserves_canonical nb =
     (\<forall>op a b e. canonical a \<longrightarrow> canonical b \<longrightarrow> nb op a b = Inr e \<longrightarrow> canonical e)"

definition ok_res :: "Expr res \<Rightarrow> bool" where
  "ok_res r = (case r of Inr e \<Rightarrow> canonical e | Inl err \<Rightarrow> True)"

definition ok_block :: "Expr res option \<Rightarrow> bool" where
  "ok_block b = (case b of Some r \<Rightarrow> ok_res r | None \<Rightarrow> True)"

text \<open>
  A memory is well formed when every \<^verbatim>\<open>Next\<close> points to an older node, as it does in
  every memory that \<^verbatim>\<open>storeByte\<close> has built; a header is valid in a memory when its
  \<^verbatim>\<open>Updates\<close> is \<^verbatim>\<open>nil\<close> or the address of a node.
\<close>

definition wf_mem :: "memory \<Rightarrow> bool" where
  "wf_mem mem =
     (\<forall>p \<in> set [0 ..< length mem]. case node_Next (mem ! p) of None \<Rightarrow> True | Some q \<Rightarrow> q < p)"

definition valid_hdr :: "memory \<Rightarrow> ArrayHeader \<Rightarrow> bool" where
  "valid_hdr mem a = (case hdr_Updates a of None \<Rightarrow> True | Some p \<Rightarrow> p < length mem)"

text \<open>
  The recursion bound that \<^verbatim>\<open>NewExtractExpr\<close> needs for an expression: the nesting depth
  of its concatenations. A result is settled when it is not \<open>OutOfFuel\<close>, and when it is
  an expression that needs no more fuel than \<open>k\<close>.
\<close>

fun extract_fuel :: "Expr \<Rightarrow> nat" where
  "extract_fuel (Concat msb lsb) = Suc (max (extract_fuel msb) (extract_fuel lsb))"
| "extract_fuel (Extract e off w) = extract_fuel e"
| "extract_fuel e = 0"

definition settled :: "nat \<Rightarrow> Expr res \<Rightarrow> bool" where
  "settled k r = (case r of Inl e \<Rightarrow> e \<noteq> OutOfFuel | Inr x \<Rightarrow> extract_fuel x \<le> k)"

section \<open>Allocation\<close>

lemma heap_Get_Set: "heap_Get (heap_Set h k v) k = Some v"
  by (induction h) (auto simp: heap_Get_def)

lemma heap_Last_last: "h \<noteq> [] \<Longrightarrow> heap_Last h = Some (last h)"
  by (induction h rule: heap_Last.induct) auto

lemma keys_heap_Set: "set (map fst (heap_Set h k v)) = insert k (set (map fst h))"
  by (induction h) (force split: if_splits)+

lemma heap_sorted_Set: "heap_sorted h \<Longrightarrow> heap_sorted (heap_Set h k v)"
  unfolding heap_sorted_def
proof (induction h)
  case Nil then show ?case by simp
next
  case (Cons a h)
  obtain k' v' where a: "a = (k', v')" by (cases a)
  from Cons.prems have s: "sorted_wrt (<) (map fst h)" and b: "\<forall>x\<in>set (map fst h). k' < x"
    by (auto simp: a)
  have ih: "sorted_wrt (<) (map fst (heap_Set h k v))" by (rule Cons.IH[OF s])
  show ?case
  proof (cases "k < k'")
    case True
    with s b show ?thesis by (auto simp: a)
  next
    case False
    show ?thesis
    proof (cases "k = k'")
      case True
      with s b show ?thesis by (auto simp: a)
    next
      case ne: False
      with False have "k' < k" by simp
      with b have "\<forall>x\<in>set (map fst (heap_Set h k v)). k' < x"
        unfolding keys_heap_Set by auto
      with ih False ne show ?thesis by (simp add: a)
    qed
  qed
qed

lemma sorted_last_max:
  "sorted_wrt (<) (map fst (h::Heap)) \<Longrightarrow> k \<in> set (map fst h) \<Longrightarrow> k \<le> fst (last h)"
proof (induction h)
  case Nil then show ?case by simp
next
  case (Cons a h)
  show ?case
  proof (cases "h = []")
    case True with Cons.prems show ?thesis by auto
  next
    case False
    then have l: "last (a # h) = last h" by simp
    from False have "fst (last h) \<in> set (map fst h)" by simp
    with Cons.prems have "fst a < fst (last h)" by auto
    moreover have "k \<in> set (map fst h) \<Longrightarrow> k \<le> fst (last h)" using Cons by simp
    ultimately show ?thesis using Cons.prems(2) l by auto
  qed
qed

lemma word_no_wrap_less:
  fixes k sz :: "64 word"
  assumes "unat k + unat sz < 2 ^ 64" and "sz \<noteq> 0"
  shows "k < k + sz"
proof -
  have "unat (k + sz) = unat k + unat sz"
    using assms(1) by (simp add: unat_add_lem[THEN iffD1])
  moreover have "0 < unat sz"
    using assms(2) by (simp add: unat_gt_0)
  ultimately show ?thesis
    by (simp add: word_less_nat_alt)
qed

text \<open>
  C4. The limit is defined and documented (\<^verbatim>\<open>MaxAllocSize\<close>: 1 MiB when the pointer width
  is 32 bits, 256 MiB otherwise), and no allocation compares a size with it: \<^verbatim>\<open>Alloc\<close>
  takes any size. On a 64-bit target an allocation of 256 MiB + 1 bytes, one byte above
  \<^verbatim>\<open>MaxAllocSize\<close>, as \<^verbatim>\<open>execString\<close> requests it for \<^verbatim>\<open>glee.String(268435457)\<close>, returns its
  array like any other, where the claim requires a fatal error.
\<close>

theorem C4_oversized_alloc_succeeds:
  "Alloc \<lparr>executor = \<lparr>PointerSize = 8\<rparr>, heap = [], constraints = []\<rparr> 268435457
     = (\<lparr>executor = \<lparr>PointerSize = 8\<rparr>, heap = [(64, Array 64 268435457 [])], constraints = []\<rparr>,
        \<lparr>Value = 64, Width = 64\<rparr>, Array 64 268435457 [])
   \<and> MaxAllocSize \<lparr>PointerSize = 8\<rparr> = 268435456"
  by (simp add: Alloc_def nextAddr_def PointerWidth_def NewArray_def NewConstantExpr_def
        MaxAllocSize_def Let_def)

text \<open>
  C5, as stated, fails twice. On a 64-bit target the first allocation is placed at
  address 64, the pointer width in bits, while the pointer width in bytes is 8. And after
  an allocation of size 0 at address 64 the next address is 64 again.
\<close>

theorem C5_first_address_in_bits:
  "Alloc \<lparr>executor = \<lparr>PointerSize = 8\<rparr>, heap = [], constraints = []\<rparr> 16
     = (\<lparr>executor = \<lparr>PointerSize = 8\<rparr>, heap = [(64, Array 64 16 [])], constraints = []\<rparr>,
        \<lparr>Value = 64, Width = 64\<rparr>, Array 64 16 [])
   \<and> PointerSize \<lparr>PointerSize = 8\<rparr> = 8
   \<and> nextAddr \<lparr>executor = \<lparr>PointerSize = 8\<rparr>, heap = [(64, Array 64 0 [])], constraints = []\<rparr> = 64"
  by (simp add: Alloc_def nextAddr_def PointerWidth_def NewArray_def NewConstantExpr_def Let_def)

text \<open>
  C5 (amended). In a state whose heap is sorted by address, a new allocation is placed
  at \<open>last_addr + last_size\<close> (modulo \<open>2^64\<close>) of the highest existing allocation, and at
  the pointer width in bits when the heap is empty; the array's id is that address, the
  heap maps the address to the array and stays sorted. When the highest allocation has a
  size other than 0 and the sum does not overflow, the new address is above every
  existing address and is not zero.
\<close>

theorem C5_alloc_address:
  assumes "heap_sorted (heap s)"
  shows "fst (snd (Alloc s width)) = NewConstantExpr (nextAddr s) (PointerWidth (executor s))
       \<and> snd (snd (Alloc s width)) = Array (nextAddr s) width []
       \<and> ID (snd (snd (Alloc s width))) = nextAddr s
       \<and> heap_Get (heap (fst (Alloc s width))) (nextAddr s) = Some (snd (snd (Alloc s width)))
       \<and> heap_sorted (heap (fst (Alloc s width)))
       \<and> (heap s = [] \<longrightarrow> nextAddr s = PointerWidth (executor s))
       \<and> (heap s \<noteq> [] \<longrightarrow> nextAddr s = fst (last (heap s)) + Size (snd (last (heap s)))
              \<and> (\<forall>k \<in> set (map fst (heap s)). k \<le> fst (last (heap s))))
       \<and> (heap s \<noteq> [] \<and> Size (snd (last (heap s))) \<noteq> 0
              \<and> unat (fst (last (heap s))) + unat (Size (snd (last (heap s)))) < 2 ^ 64
            \<longrightarrow> (\<forall>k \<in> set (map fst (heap s)). k < nextAddr s) \<and> nextAddr s \<noteq> 0)"
proof -
  have srt: "sorted_wrt (<) (map fst (heap s))" using assms by (simp add: heap_sorted_def)
  have ne: "heap s \<noteq> [] \<Longrightarrow> nextAddr s = fst (last (heap s)) + Size (snd (last (heap s)))"
    by (simp add: nextAddr_def heap_Last_last split: prod.splits)
  have mx: "\<forall>k \<in> set (map fst (heap s)). k \<le> fst (last (heap s))"
    using sorted_last_max[OF srt] by blast
  have gt: "\<forall>k \<in> set (map fst (heap s)). k < nextAddr s" and nz: "nextAddr s \<noteq> 0"
    if h: "heap s \<noteq> []" and sz: "Size (snd (last (heap s))) \<noteq> 0"
      and nw: "unat (fst (last (heap s))) + unat (Size (snd (last (heap s)))) < 2 ^ 64"
  proof -
    have lt: "fst (last (heap s)) < nextAddr s"
      using word_no_wrap_less[OF nw sz] ne[OF h] by simp
    show "\<forall>k \<in> set (map fst (heap s)). k < nextAddr s"
      using mx lt by (meson le_less_trans)
    show "nextAddr s \<noteq> 0"
      using lt by (metis word_not_simps(1))
  qed
  show ?thesis
    using ne mx gt nz heap_sorted_Set[OF assms]
    by (simp add: Alloc_def Let_def NewArray_def heap_Get_Set nextAddr_def)
qed

theorem C5_alloc_address_witness:
  "heap_sorted [(64, Array 64 16 [])]
   \<and> nextAddr \<lparr>executor = \<lparr>PointerSize = 8\<rparr>, heap = [(64, Array 64 16 [])], constraints = []\<rparr> = 80
   \<and> snd (snd (Alloc \<lparr>executor = \<lparr>PointerSize = 8\<rparr>, heap = [(64, Array 64 16 [])], constraints = []\<rparr> 8))
       = Array 80 8 []
   \<and> heap_sorted []
   \<and> nextAddr \<lparr>executor = \<lparr>PointerSize = 8\<rparr>, heap = [], constraints = []\<rparr> = 64"
proof -
  have h1: "heap_sorted (heap \<lparr>executor = \<lparr>PointerSize = 8\<rparr>, heap = [(64, Array 64 16 [])], constraints = []\<rparr>)"
    by (simp add: heap_sorted_def)
  have h2: "heap_sorted (heap \<lparr>executor = \<lparr>PointerSize = 8\<rparr>, heap = [], constraints = []\<rparr>)"
    by (simp add: heap_sorted_def)
  show ?thesis
    using C5_alloc_address [OF h1, of 8] C5_alloc_address [OF h2, of 8] h1 h2
    by (simp add: PointerWidth_def)
qed

section \<open>Binary operations of the executor\<close>

lemma handler_integer: "executeBinOpInstr_handler (BasicType IsInteger) = HandleInteger False"
  by (simp add: executeBinOpInstr_handler_def IsInteger_def IsBoolean_def IsUnsigned_def)

text \<open>
  C1 fails on the code: \<^verbatim>\<open>executeBinOpInstr\<close> passes the constant \<^verbatim>\<open>types.IsUnsigned == 0\<close>,
  which is false, as the \<^verbatim>\<open>signed\<close> argument. For a signed integer operand type (flags
  \<^verbatim>\<open>IsInteger\<close> alone) the operators QUO, REM, SHR, LSS, LEQ, GTR and GEQ therefore build
  the unsigned expressions UDIV, UREM, LSHR, ULT, ULE, UGT and UGE; the quotient of two
  symbolic bytes of signed type is a UDIV expression.
\<close>

theorem C1_signed_operands_get_unsigned_ops:
  "executeBinOpInstr_handler (BasicType IsInteger) = HandleInteger False
   \<and> executeBinOpInstr n (BasicType IsInteger) T_QUO x y = Some (bind_instr (NewBinaryExpr n UDIV x y))
   \<and> executeBinOpInstr n (BasicType IsInteger) T_REM x y = Some (bind_instr (NewBinaryExpr n UREM x y))
   \<and> executeBinOpInstr n (BasicType IsInteger) T_SHR x y = Some (bind_instr (NewBinaryExpr n LSHR x y))
   \<and> executeBinOpInstr n (BasicType IsInteger) T_LSS x y = Some (bind_instr (NewBinaryExpr n ULT x y))
   \<and> executeBinOpInstr n (BasicType IsInteger) T_LEQ x y = Some (bind_instr (NewBinaryExpr n ULE x y))
   \<and> executeBinOpInstr n (BasicType IsInteger) T_GTR x y = Some (bind_instr (NewBinaryExpr n UGT x y))
   \<and> executeBinOpInstr n (BasicType IsInteger) T_GEQ x y = Some (bind_instr (NewBinaryExpr n UGE x y))
   \<and> executeBinOpInstr 0 (BasicType IsInteger) T_QUO
        (Select (Array 0 2 []) (Constant \<lparr>Value = 0, Width = 64\<rparr>))
        (Select (Array 0 2 []) (Constant \<lparr>Value = 1, Width = 64\<rparr>))
      = Some (Inr (Binary UDIV (Select (Array 0 2 []) (Constant \<lparr>Value = 0, Width = 64\<rparr>))
                               (Select (Array 0 2 []) (Constant \<lparr>Value = 1, Width = 64\<rparr>))))"
  by (simp add: handler_integer executeBinOpInstr_def executeBinOpInstrInteger_def
        NewBinaryExpr_step_def newDivExpr_def assert_def bind_def bind_instr_def
        Width8_def WidthBool_def)

section \<open>Adding constraints\<close>






section \<open>Canonical form of compares\<close>

lemma ok_res_simps [simp]: "ok_res (Inr e) = canonical e" "ok_res (Inl err) = True"
  by (simp_all add: ok_res_def)

lemma ok_block_simps [simp]: "ok_block (Some r) = ok_res r" "ok_block None = True"
  by (simp_all add: ok_block_def)

lemma first_of_ok: "list_all ok_block bs \<Longrightarrow> ok_res d \<Longrightarrow> ok_res (first_of bs d)"
  by (induction bs d rule: first_of.induct) simp_all

lemma ok_res_lift_const [simp]: "ok_res (lift_const r)"
  by (cases r) (simp_all add: lift_const_def bind_def)

lemma ok_res_bind:
  assumes "ok_res m" and "\<And>x. canonical x \<Longrightarrow> ok_res (f x)"
  shows "ok_res (bind m f)"
proof (cases m)
  case (Inl a) then show ?thesis by (simp add: bind_def)
next
  case (Inr b)
  with assms(1) have "canonical b" by simp
  from assms(2)[OF this] Inr show ?thesis by (simp add: bind_def)
qed

lemma ok_res_bind_const:
  assumes "\<And>x. ok_res (f (Constant x))"
  shows "ok_res (bind (lift_const m) f)"
proof (cases m)
  case (Inl a) then show ?thesis by (simp add: bind_def lift_const_def)
next
  case (Inr b)
  with assms[of b] show ?thesis by (simp add: bind_def lift_const_def)
qed

lemma ok_res_nb:
  assumes "preserves_canonical nb" and "canonical a" and "canonical b"
  shows "ok_res (nb op a b)"
proof (cases "nb op a b")
  case (Inl e) then show ?thesis by simp
next
  case (Inr e)
  with assms have "canonical e" unfolding preserves_canonical_def by blast
  with Inr show ?thesis by simp
qed

lemma ok_res_IsZero: "preserves_canonical nb \<Longrightarrow> canonical a \<Longrightarrow> ok_res (NewIsZeroExpr nb a)"
  unfolding NewIsZeroExpr_def by (rule ok_res_nb) simp_all

lemmas ok_intros = ok_res_bind ok_res_nb ok_res_IsZero ok_res_bind_const

lemma swap_split:
  "P (case (if c then (r, l) else (l, r)) of (lhs, rhs) \<Rightarrow> F lhs rhs) = ((c \<longrightarrow> P (F r l)) \<and> (\<not> c \<longrightarrow> P (F l r)))"
  by simp

lemma first_of_ok_Nil: "ok_res d \<Longrightarrow> ok_res (first_of [] d)"
  by simp

lemma first_of_ok_Cons: "ok_block b \<Longrightarrow> ok_res (first_of bs d) \<Longrightarrow> ok_res (first_of (b # bs) d)"
  by (cases b) simp_all

lemmas fo = first_of_ok_Cons first_of_ok_Nil

lemma xor_ok: "canonical l \<Longrightarrow> canonical r \<Longrightarrow> ok_res (newXorExpr l r)"
  unfolding newXorExpr_def Let_def
  apply (simp only: swap_split)
  apply (intro conjI impI fo)
     apply (simp_all add: IsCompare_def split: Expr.split)
  done

lemma ok_res_bind_any:
  assumes "\<And>x. ok_res (f x)"
  shows "ok_res (bind m f)"
proof (cases m)
  case (Inl a) then show ?thesis by (simp add: bind_def)
next
  case (Inr b)
  with assms[of b] show ?thesis by (simp add: bind_def)
qed

lemma and_ok: "canonical l \<Longrightarrow> canonical r \<Longrightarrow> ok_res (newAndExpr l r)"
  unfolding newAndExpr_def Let_def
  apply (intro fo)
   apply (simp split: Expr.split)
  apply (simp only: swap_split)
  apply (intro conjI impI fo)
     apply (simp_all add: IsCompare_def split: Expr.split)
  done

lemma or_ok: "canonical l \<Longrightarrow> canonical r \<Longrightarrow> ok_res (newOrExpr l r)"
  unfolding newOrExpr_def Let_def
  apply (intro fo)
   apply (simp split: Expr.split)
  apply (simp only: swap_split)
  apply (intro conjI impI fo)
     apply (simp_all add: IsCompare_def split: Expr.split)
  done

lemma add_ok:
  assumes pc: "preserves_canonical nb" and l: "canonical l" and r: "canonical r"
  shows "ok_res (newAddExpr nb l r)"
proof -
  note nbI = ok_res_nb[OF pc]
  show ?thesis
    unfolding newAddExpr_def Let_def using l r
    apply (simp only: swap_split)
    apply (intro conjI impI fo)
                apply (simp_all add: nbI IsCompare_def split: Expr.split)
     apply (intro conjI impI allI ok_res_bind_const ok_res_bind nbI; simp)+
    done
qed

lemma sub_ok:
  assumes pc: "preserves_canonical nb" and l: "canonical l" and r: "canonical r"
  shows "ok_res (newSubExpr nb l r)"
proof -
  note nbI = ok_res_nb[OF pc]
  show ?thesis
    unfolding newSubExpr_def Let_def using l r
    apply (intro conjI impI fo)
           apply (simp_all add: nbI IsCompare_def split: Expr.split)
       apply (intro conjI impI allI ok_res_bind_const ok_res_bind nbI; simp)+
    done
qed

lemma mul_ok:
  assumes pc: "preserves_canonical nb" and l: "canonical l" and r: "canonical r"
  shows "ok_res (newMulExpr nb l r)"
proof -
  note nbI = ok_res_nb[OF pc]
  show ?thesis
    unfolding newMulExpr_def Let_def using l r
    apply (simp only: swap_split)
    apply (intro conjI impI fo)
           apply (simp_all add: nbI IsCompare_def split: Expr.split)
    done
qed

lemma div_ok: "canonical l \<Longrightarrow> canonical r \<Longrightarrow> ok_res (newDivExpr op l r)"
  unfolding newDivExpr_def Let_def assert_def
  apply (cases "op = UDIV \<or> op = SDIV"; simp add: bind_def)
  apply (intro conjI impI fo)
    apply (auto simp add: IsCompare_def split: Expr.split)
  done

lemma rem_ok: "canonical l \<Longrightarrow> canonical r \<Longrightarrow> ok_res (newRemExpr op l r)"
  unfolding newRemExpr_def Let_def assert_def
  apply (cases "op = UREM \<or> op = SREM"; simp add: bind_def)
  apply (intro conjI impI fo)
    apply (auto simp add: IsCompare_def split: Expr.split)
  done

lemma shl_ok:
  assumes pc: "preserves_canonical nb" and l: "canonical l" and r: "canonical r"
  shows "ok_res (newShlExpr nb l r)"
proof -
  note nbI = ok_res_nb[OF pc]
  note izI = ok_res_IsZero[OF pc]
  show ?thesis
    unfolding newShlExpr_def Let_def using l r
    apply (intro conjI impI fo)
      apply (simp_all add: nbI IsCompare_def split: Expr.split)
    apply (intro conjI impI allI ok_res_bind_const ok_res_bind nbI izI; simp)+
    done
qed

lemma lshr_ok:
  assumes pc: "preserves_canonical nb" and l: "canonical l" and r: "canonical r"
  shows "ok_res (newLShrExpr nb l r)"
proof -
  note nbI = ok_res_nb[OF pc]
  note izI = ok_res_IsZero[OF pc]
  show ?thesis
    unfolding newLShrExpr_def Let_def using l r
    apply (intro conjI impI fo)
      apply (simp_all add: nbI IsCompare_def split: Expr.split)
    apply (intro conjI impI allI ok_res_bind_const ok_res_bind nbI izI; simp)+
    done
qed

lemma ashr_ok: "canonical l \<Longrightarrow> canonical r \<Longrightarrow> ok_res (newAShrExpr l r)"
  unfolding newAShrExpr_def Let_def
  apply (intro conjI impI fo)
    apply (simp_all add: IsCompare_def split: Expr.split)
  done

lemma eq_swap:
  assumes "\<not> IsConstantExpr l" "IsConstantExpr r"
  shows "newEqExpr nb l r = newEqExpr nb r l"
  unfolding newEqExpr_def using assms by (simp only: simp_thms if_True if_False)

lemma eq_ok_noswap:
  assumes pc: "preserves_canonical nb" and l: "canonical l" and r: "canonical r"
    and ns: "IsConstantExpr l \<or> \<not> IsConstantExpr r"
  shows "ok_res (newEqExpr nb l r)"
proof -
  note nbI = ok_res_nb[OF pc]
  note izI = ok_res_IsZero[OF pc]
  have ns': "(\<not> IsConstantExpr l \<and> IsConstantExpr r) = False" using ns by simp
  show ?thesis
    unfolding newEqExpr_def Let_def ns' if_False prod.case using l r
    apply (intro fo)
      apply (simp_all add: IsCompare_def del: CompareExpr.simps)
    apply (simp split: Expr.split del: CompareExpr.simps)
    apply (intro conjI impI allI)
    apply (simp_all del: CompareExpr.simps)
    apply (intro conjI impI allI ok_res_bind ok_res_bind_any nbI izI; (clarsimp simp del: CompareExpr.simps)?)+
    done
qed

lemma eq_ok:
  assumes pc: "preserves_canonical nb" and l: "canonical l" and r: "canonical r"
  shows "ok_res (newEqExpr nb l r)"
proof (cases "\<not> IsConstantExpr l \<and> IsConstantExpr r")
  case True
  then have a: "\<not> IsConstantExpr l" and b: "IsConstantExpr r" by simp_all
  from b have "IsConstantExpr r \<or> \<not> IsConstantExpr l" by simp
  from eq_ok_noswap[OF pc r l this] eq_swap[OF a b, of nb] show ?thesis by simp
next
  case False
  then have "IsConstantExpr l \<or> \<not> IsConstantExpr r" by simp
  from eq_ok_noswap[OF pc l r this] show ?thesis .
qed

lemma ult_ok:
  assumes pc: "preserves_canonical nb" and l: "canonical l" and r: "canonical r"
  shows "ok_res (newUltExpr nb l r)"
proof -
  note nbI = ok_res_nb[OF pc]
  note izI = ok_res_IsZero[OF pc]
  show ?thesis
    unfolding newUltExpr_def Let_def using l r
    apply (intro conjI impI fo)
      apply (simp_all add: nbI IsCompare_def split: Expr.split)
    apply (intro conjI impI allI ok_res_bind_const ok_res_bind nbI izI; simp)+
    done
qed

lemma ule_ok:
  assumes pc: "preserves_canonical nb" and l: "canonical l" and r: "canonical r"
  shows "ok_res (newUleExpr nb l r)"
proof -
  note nbI = ok_res_nb[OF pc]
  note izI = ok_res_IsZero[OF pc]
  show ?thesis
    unfolding newUleExpr_def Let_def using l r
    apply (intro conjI impI fo)
      apply (simp_all add: nbI IsCompare_def split: Expr.split)
    apply (intro conjI impI allI ok_res_bind_const ok_res_bind nbI izI; simp)+
    done
qed

lemma slt_ok:
  assumes pc: "preserves_canonical nb" and l: "canonical l" and r: "canonical r"
  shows "ok_res (newSltExpr nb l r)"
proof -
  note nbI = ok_res_nb[OF pc]
  note izI = ok_res_IsZero[OF pc]
  show ?thesis
    unfolding newSltExpr_def Let_def using l r
    apply (intro conjI impI fo)
      apply (simp_all add: nbI IsCompare_def split: Expr.split)
    apply (intro conjI impI allI ok_res_bind_const ok_res_bind nbI izI; simp)+
    done
qed

lemma sle_ok:
  assumes pc: "preserves_canonical nb" and l: "canonical l" and r: "canonical r"
  shows "ok_res (newSleExpr nb l r)"
proof -
  note nbI = ok_res_nb[OF pc]
  note izI = ok_res_IsZero[OF pc]
  show ?thesis
    unfolding newSleExpr_def Let_def using l r
    apply (intro conjI impI fo)
      apply (simp_all add: nbI IsCompare_def split: Expr.split)
    apply (intro conjI impI allI ok_res_bind_const ok_res_bind nbI izI; simp)+
    done
qed

lemma step_ok:
  assumes pc: "preserves_canonical nb" and l: "canonical l" and r: "canonical r"
  shows "ok_res (NewBinaryExpr_step nb op l r)"
proof (cases op)
  case NE
  have "ok_res (bind (nb EQ l r) (\<lambda>e. nb EQ (Constant (NewConstantExpr 0 WidthBool)) e))"
    by (intro ok_res_bind ok_res_nb[OF pc] l r) simp_all
  with NE show ?thesis by (simp add: NewBinaryExpr_step_def)
qed (simp_all add: NewBinaryExpr_step_def add_ok sub_ok mul_ok div_ok rem_ok and_ok or_ok xor_ok
       shl_ok lshr_ok ashr_ok eq_ok ult_ok ule_ok slt_ok sle_ok pc l r)

lemma preserves_step: "preserves_canonical nb \<Longrightarrow> preserves_canonical (NewBinaryExpr_step nb)"
proof -
  assume pc: "preserves_canonical nb"
  have "canonical e" if "canonical a" "canonical b" "NewBinaryExpr_step nb op a b = Inr e" for op a b e
    using step_ok[OF pc that(1) that(2), of op] that(3) by simp
  then show ?thesis
    unfolding preserves_canonical_def by blast
qed

lemma preserves_NewBinaryExpr: "preserves_canonical (NewBinaryExpr n)"
proof (induction n)
  case 0
  have "preserves_canonical (\<lambda>op lhs rhs. Inl OutOfFuel)"
    by (simp add: preserves_canonical_def)
  then show ?case by (simp add: preserves_step)
next
  case (Suc n)
  then show ?case by (simp add: preserves_step)
qed

text \<open>
  C7. Constructing \<^verbatim>\<open>UGT(a,b)\<close> is constructing \<^verbatim>\<open>ULT(b,a)\<close>, and likewise \<^verbatim>\<open>UGE\<close>
  is \<^verbatim>\<open>ULE\<close>, \<^verbatim>\<open>SGT\<close> is \<^verbatim>\<open>SLT\<close> and \<^verbatim>\<open>SGE\<close> is \<^verbatim>\<open>SLE\<close> with the operands swapped;
  constructing \<^verbatim>\<open>NE(a,b)\<close> is constructing \<^verbatim>\<open>EQ(false, EQ(a,b))\<close>. Consequently, when
  the operands are in canonical compare form, so is every expression the constructor
  returns: its compare nodes have operator \<^verbatim>\<open>EQ\<close>, \<^verbatim>\<open>ULT\<close>, \<^verbatim>\<open>ULE\<close>, \<^verbatim>\<open>SLT\<close> or \<^verbatim>\<open>SLE\<close>.
\<close>

theorem C7_compare_canonical_form:
  "NewBinaryExpr n UGT a b = NewBinaryExpr n ULT b a
   \<and> NewBinaryExpr n UGE a b = NewBinaryExpr n ULE b a
   \<and> NewBinaryExpr n SGT a b = NewBinaryExpr n SLT b a
   \<and> NewBinaryExpr n SGE a b = NewBinaryExpr n SLE b a
   \<and> NewBinaryExpr (Suc n) NE a b =
        bind (NewBinaryExpr n EQ a b) (\<lambda>e. NewBinaryExpr n EQ (Constant (NewConstantExpr 0 WidthBool)) e)
   \<and> (canonical a \<and> canonical b \<and> NewBinaryExpr n op a b = Inr e \<longrightarrow> canonical e)"
proof -
  have sw: "NewBinaryExpr n UGT a b = NewBinaryExpr n ULT b a"
      "NewBinaryExpr n UGE a b = NewBinaryExpr n ULE b a"
      "NewBinaryExpr n SGT a b = NewBinaryExpr n SLT b a"
      "NewBinaryExpr n SGE a b = NewBinaryExpr n SLE b a"
    by (cases n; simp add: NewBinaryExpr_step_def)+
  have ne: "NewBinaryExpr (Suc n) NE a b =
        bind (NewBinaryExpr n EQ a b) (\<lambda>e. NewBinaryExpr n EQ (Constant (NewConstantExpr 0 WidthBool)) e)"
    by (simp add: NewBinaryExpr_step_def)
  have pc: "canonical a \<and> canonical b \<and> NewBinaryExpr n op a b = Inr e \<longrightarrow> canonical e"
    using preserves_NewBinaryExpr[of n] unfolding preserves_canonical_def by blast
  from sw ne pc show ?thesis by blast
qed

theorem C7_compare_canonical_form_witness:
  "canonical (Select (Array 0 2 []) (Constant \<lparr>Value = 0, Width = 64\<rparr>))
   \<and> canonical (Select (Array 0 2 []) (Constant \<lparr>Value = 1, Width = 64\<rparr>))
   \<and> NewBinaryExpr (Suc 0) NE (Select (Array 0 2 []) (Constant \<lparr>Value = 0, Width = 64\<rparr>))
                               (Select (Array 0 2 []) (Constant \<lparr>Value = 1, Width = 64\<rparr>))
       = Inr (Binary EQ (Constant \<lparr>Value = 0, Width = 1\<rparr>)
               (Binary EQ (Select (Array 0 2 []) (Constant \<lparr>Value = 0, Width = 64\<rparr>))
                          (Select (Array 0 2 []) (Constant \<lparr>Value = 1, Width = 64\<rparr>))))
   \<and> canonical (Binary EQ (Constant \<lparr>Value = 0, Width = 1\<rparr>)
               (Binary EQ (Select (Array 0 2 []) (Constant \<lparr>Value = 0, Width = 64\<rparr>))
                          (Select (Array 0 2 []) (Constant \<lparr>Value = 1, Width = 64\<rparr>))))
   \<and> NewBinaryExpr (Suc 0) UGT (Select (Array 0 2 []) (Constant \<lparr>Value = 0, Width = 64\<rparr>))
                                (Select (Array 0 2 []) (Constant \<lparr>Value = 1, Width = 64\<rparr>))
       = Inr (Binary ULT (Select (Array 0 2 []) (Constant \<lparr>Value = 1, Width = 64\<rparr>))
                         (Select (Array 0 2 []) (Constant \<lparr>Value = 0, Width = 64\<rparr>)))"
proof -
  have ne: "NewBinaryExpr (Suc 0) NE (Select (Array 0 2 []) (Constant \<lparr>Value = 0, Width = 64\<rparr>))
                               (Select (Array 0 2 []) (Constant \<lparr>Value = 1, Width = 64\<rparr>))
       = Inr (Binary EQ (Constant \<lparr>Value = 0, Width = 1\<rparr>)
               (Binary EQ (Select (Array 0 2 []) (Constant \<lparr>Value = 0, Width = 64\<rparr>))
                          (Select (Array 0 2 []) (Constant \<lparr>Value = 1, Width = 64\<rparr>))))"
    by (simp add: NewBinaryExpr_step_def newEqExpr_def bind_def IsConstantExpr_def
          exprKind_def compareConstantExpr_def NewConstantExpr_def WidthBool_def Width8_def
          IsTrue_def IsConstantFalse_def IsCompare_def)
  have ugt: "NewBinaryExpr (Suc 0) ULT (Select (Array 0 2 []) (Constant \<lparr>Value = 1, Width = 64\<rparr>))
                                (Select (Array 0 2 []) (Constant \<lparr>Value = 0, Width = 64\<rparr>))
       = Inr (Binary ULT (Select (Array 0 2 []) (Constant \<lparr>Value = 1, Width = 64\<rparr>))
                         (Select (Array 0 2 []) (Constant \<lparr>Value = 0, Width = 64\<rparr>)))"
    by (simp add: NewBinaryExpr_step_def newUltExpr_def WidthBool_def Width8_def)
  show ?thesis
    using
      C7_compare_canonical_form [of "Suc 0"
        "Select (Array 0 2 []) (Constant \<lparr>Value = 0, Width = 64\<rparr>)"
        "Select (Array 0 2 []) (Constant \<lparr>Value = 1, Width = 64\<rparr>)" NE
        "Binary EQ (Constant \<lparr>Value = 0, Width = 1\<rparr>)
               (Binary EQ (Select (Array 0 2 []) (Constant \<lparr>Value = 0, Width = 64\<rparr>))
                          (Select (Array 0 2 []) (Constant \<lparr>Value = 1, Width = 64\<rparr>)))"]
      ne ugt
    by simp
qed

section \<open>Update chains\<close>

lemma newZExtExpr_same: "ExprWidth e = w \<Longrightarrow> newZExtExpr same n e w = Inr e"
  by (simp add: newZExtExpr_def)

lemma NewArrayUpdate_fit:
  "ExprWidth i = 64 \<Longrightarrow> ExprWidth v = 8 \<Longrightarrow> NewArrayUpdate same n i v = Inr (ArrayUpdate i v)"
  by (simp add: NewArrayUpdate_def newZExtExpr_same Width64_def Width8_def bind_def)

lemma storeByte_const:
  "Width c = 64 \<Longrightarrow> Value c < Size a \<Longrightarrow> ExprWidth v = 8 \<Longrightarrow>
   storeByte same n a (Constant c) v =
     Inr (Array (ID a) (Size a) (ArrayUpdate (Constant c) v # storeByte_remove c (Updates a)))"
  by (simp add: storeByte_def assert_def bind_def NewArrayUpdate_fit)

lemma storeByte_symbolic:
  "\<not> IsConstantExpr index \<Longrightarrow> ExprWidth index = 64 \<Longrightarrow> ExprWidth v = 8 \<Longrightarrow>
   storeByte same n a index v = Inr (Array (ID a) (Size a) (ArrayUpdate index v # Updates a))"
  by (cases index) (simp_all add: storeByte_def assert_def bind_def NewArrayUpdate_fit IsConstantExpr_def)

lemma storeByte_out_of_bounds:
  "\<not> Value c < Size a \<Longrightarrow>
   storeByte same n a (Constant c) v =
     Inl (Panic (if Width c = 64 then ''storeByte: index out of bounds''
                 else ''storeByte: invalid array index width''))"
  by (simp add: storeByte_def assert_def bind_def)

lemma NewBinaryExpr_EQ_const:
  "Width c = Width d \<Longrightarrow>
   NewBinaryExpr n EQ (Constant c) (Constant d) =
     Inr (Constant (if Value c = Value d then \<lparr>Value = 1, Width = 1\<rparr> else \<lparr>Value = 0, Width = 1\<rparr>))"
  by (cases n)
     (simp_all add: NewBinaryExpr_step_def newEqExpr_def IsConstantExpr_def lift_const_def
        ConstantExpr_Eq_def assert_def bind_def NewConstantExpr_def WidthBool_def)

lemma selectByte_head:
  "Width c = 64 \<Longrightarrow>
   selectByte n (Array aid sz (ArrayUpdate (Constant c) v # rest)) (Constant c) = Inr v"
  by (simp add: selectByte_def assert_def bind_def NewBinaryExpr_EQ_const IsTrue_def WidthBool_def)

text \<open>
  C2, as stated, fails in its second half: after a write of 0 at index 0, a write of 1 at
  a symbolic index and a write of 2 at index 0, the chain holds the three entries, and
  \<^verbatim>\<open>selectByte\<close> at index 0 returns the constant 2 of the newest entry, not a select
  expression.
\<close>

theorem C2_latest_write_is_read:
  "storeByte separate_nodes 0 (Array 0 2 []) (Constant \<lparr>Value = 0, Width = 64\<rparr>) (Constant \<lparr>Value = 0, Width = 8\<rparr>)
     = Inr (Array 0 2 [ArrayUpdate (Constant \<lparr>Value = 0, Width = 64\<rparr>) (Constant \<lparr>Value = 0, Width = 8\<rparr>)])
   \<and> storeByte separate_nodes 0 (Array 0 2 [ArrayUpdate (Constant \<lparr>Value = 0, Width = 64\<rparr>) (Constant \<lparr>Value = 0, Width = 8\<rparr>)])
        (Cast (Select (Array 0 1 []) (Constant \<lparr>Value = 0, Width = 64\<rparr>)) 64 False)
        (Constant \<lparr>Value = 1, Width = 8\<rparr>)
     = Inr (Array 0 2 [ArrayUpdate (Cast (Select (Array 0 1 []) (Constant \<lparr>Value = 0, Width = 64\<rparr>)) 64 False)
                                   (Constant \<lparr>Value = 1, Width = 8\<rparr>),
                       ArrayUpdate (Constant \<lparr>Value = 0, Width = 64\<rparr>) (Constant \<lparr>Value = 0, Width = 8\<rparr>)])
   \<and> storeByte separate_nodes 0 (Array 0 2 [ArrayUpdate (Cast (Select (Array 0 1 []) (Constant \<lparr>Value = 0, Width = 64\<rparr>)) 64 False)
                                   (Constant \<lparr>Value = 1, Width = 8\<rparr>),
                       ArrayUpdate (Constant \<lparr>Value = 0, Width = 64\<rparr>) (Constant \<lparr>Value = 0, Width = 8\<rparr>)])
        (Constant \<lparr>Value = 0, Width = 64\<rparr>) (Constant \<lparr>Value = 2, Width = 8\<rparr>)
     = Inr (Array 0 2 [ArrayUpdate (Constant \<lparr>Value = 0, Width = 64\<rparr>) (Constant \<lparr>Value = 2, Width = 8\<rparr>),
                       ArrayUpdate (Cast (Select (Array 0 1 []) (Constant \<lparr>Value = 0, Width = 64\<rparr>)) 64 False)
                                   (Constant \<lparr>Value = 1, Width = 8\<rparr>),
                       ArrayUpdate (Constant \<lparr>Value = 0, Width = 64\<rparr>) (Constant \<lparr>Value = 0, Width = 8\<rparr>)])
   \<and> selectByte 0 (Array 0 2 [ArrayUpdate (Constant \<lparr>Value = 0, Width = 64\<rparr>) (Constant \<lparr>Value = 2, Width = 8\<rparr>),
                       ArrayUpdate (Cast (Select (Array 0 1 []) (Constant \<lparr>Value = 0, Width = 64\<rparr>)) 64 False)
                                   (Constant \<lparr>Value = 1, Width = 8\<rparr>),
                       ArrayUpdate (Constant \<lparr>Value = 0, Width = 64\<rparr>) (Constant \<lparr>Value = 0, Width = 8\<rparr>)])
        (Constant \<lparr>Value = 0, Width = 64\<rparr>)
     = Inr (Constant \<lparr>Value = 2, Width = 8\<rparr>)"
  by (simp add: storeByte_const storeByte_symbolic selectByte_head IsConstantExpr_def)

text \<open>
  C2 (amended). For any array, a write at a constant index within bounds, then a write at
  a symbolic index, then another write at the same constant index leaves all three
  entries at the head of the update chain, newest first (the older entry is not removed
  across the symbolic one), and a subsequent \<^verbatim>\<open>selectByte\<close> at that constant index
  returns the value of the newest write.
\<close>

theorem C2_symbolic_barrier:
  fixes a :: Array and i :: ConstantExpr and s v1 v2 v3 :: Expr
  defines "a1 \<equiv> Array (ID a) (Size a) (ArrayUpdate (Constant i) v1 # storeByte_remove i (Updates a))"
  defines "a2 \<equiv> Array (ID a) (Size a)
                   (ArrayUpdate s v2 # ArrayUpdate (Constant i) v1 # storeByte_remove i (Updates a))"
  defines "a3 \<equiv> Array (ID a) (Size a)
                   (ArrayUpdate (Constant i) v3 # ArrayUpdate s v2 # ArrayUpdate (Constant i) v1
                      # storeByte_remove i (Updates a))"
  assumes "Width i = 64" and "Value i < Size a"
    and "\<not> IsConstantExpr s" and "ExprWidth s = 64"
    and "ExprWidth v1 = 8" and "ExprWidth v2 = 8" and "ExprWidth v3 = 8"
  shows "storeByte same n a (Constant i) v1 = Inr a1
       \<and> storeByte same n a1 s v2 = Inr a2
       \<and> storeByte same n a2 (Constant i) v3 = Inr a3
       \<and> selectByte n a3 (Constant i) = Inr v3"
proof -
  have ns: "(case s of Constant c \<Rightarrow> x c | _ \<Rightarrow> y) = y" for x :: "ConstantExpr \<Rightarrow> ArrayUpdate list" and y
    using assms(6) by (cases s) (simp_all add: IsConstantExpr_def)
  show ?thesis
    unfolding a1_def a2_def a3_def
    using assms(4-)
    by (simp add: storeByte_const storeByte_symbolic selectByte_head ns)
qed

section \<open>Recursion bound of extraction\<close>

lemma settled_simps [simp]:
  "settled k (Inr x) = (extract_fuel x \<le> k)"
  "settled k (Inl e) = (e \<noteq> OutOfFuel)"
  by (simp_all add: settled_def)

lemma settled_mono: "settled j r \<Longrightarrow> j \<le> k \<Longrightarrow> settled k r"
  by (cases r) (auto simp: settled_def)

lemma settled_bind:
  assumes "settled j m" and "\<And>x. m = Inr x \<Longrightarrow> extract_fuel x \<le> j \<Longrightarrow> settled k (f x)"
  shows "settled k (bind m f)"
proof (cases m)
  case (Inl e) with assms(1) show ?thesis by (simp add: bind_def)
next
  case (Inr x)
  with assms(1) have "extract_fuel x \<le> j" by simp
  from assms(2)[OF Inr this] Inr show ?thesis by (simp add: bind_def)
qed

lemma concat_step_settled:
  assumes ext: "\<And>e off w. extract_fuel e \<le> k \<Longrightarrow> settled (extract_fuel e) (ext e off w)"
    and hi: "extract_fuel hi \<le> k" and lo: "extract_fuel lo \<le> k"
  shows "settled (Suc (max (extract_fuel hi) (extract_fuel lo))) (NewConcatExpr_step same ext hi lo)"
proof (cases hi)
  case (Constant m)
  then show ?thesis by (cases lo) (simp_all add: NewConcatExpr_step_def)
next
  case hiE: (Extract me mo mw)
  show ?thesis
  proof (cases lo)
    case (Extract le lo' lw)
    have "extract_fuel me \<le> k" using hi hiE by simp
    from ext[OF this, of lo' "mw + lw"] have "settled (extract_fuel hi) (ext me lo' (mw + lw))"
      using hiE by simp
    then have "settled (Suc (max (extract_fuel hi) (extract_fuel lo))) (ext me lo' (mw + lw))"
      by (rule settled_mono) simp
    then show ?thesis using hiE Extract by (auto simp add: NewConcatExpr_step_def)
  qed (simp_all add: NewConcatExpr_step_def hiE)
qed (simp_all add: NewConcatExpr_step_def)

lemma extract_step_settled:
  assumes ext: "\<And>e off w. extract_fuel e \<le> k \<Longrightarrow> settled (extract_fuel e) (ext e off w)"
    and e: "extract_fuel e \<le> Suc k"
  shows "settled (extract_fuel e) (NewExtractExpr_step same ext e off w)"
proof (cases e)
  case (Concat msb lsb)
  with e have m: "extract_fuel msb \<le> k" and l: "extract_fuel lsb \<le> k" by simp_all
  have fm: "extract_fuel msb \<le> extract_fuel e" and fl: "extract_fuel lsb \<le> extract_fuel e"
    using Concat by simp_all
  have a: "settled (extract_fuel e) (ext msb o' w')" for o' w'
    using ext[OF m, of o' w'] fm by (rule settled_mono)
  have b: "settled (extract_fuel e) (ext lsb o' w')" for o' w'
    using ext[OF l, of o' w'] fl by (rule settled_mono)
  have c: "settled (extract_fuel e)
             (bind (ext msb o1 w1) (\<lambda>hi. bind (ext lsb o2 w2) (\<lambda>lo. NewConcatExpr_step same ext hi lo)))"
    for o1 w1 o2 w2
  proof (rule settled_bind[OF ext[OF m]])
    fix hi assume hi: "extract_fuel hi \<le> extract_fuel msb"
    show "settled (extract_fuel e) (bind (ext lsb o2 w2) (\<lambda>lo. NewConcatExpr_step same ext hi lo))"
    proof (rule settled_bind[OF ext[OF l]])
      fix lo assume lo: "extract_fuel lo \<le> extract_fuel lsb"
      have "settled (Suc (max (extract_fuel hi) (extract_fuel lo))) (NewConcatExpr_step same ext hi lo)"
        using concat_step_settled[of k ext hi lo same] ext hi lo m l by simp
      moreover have "max (extract_fuel hi) (extract_fuel lo) \<le> max (extract_fuel msb) (extract_fuel lsb)"
        using hi lo by (rule max.mono)
      then have "Suc (max (extract_fuel hi) (extract_fuel lo)) \<le> extract_fuel e"
        by (simp only: Concat extract_fuel.simps Suc_le_mono)
      ultimately show "settled (extract_fuel e) (NewConcatExpr_step same ext hi lo)"
        by (rule settled_mono)
    qed
  qed
  show ?thesis
    unfolding NewExtractExpr_step_def Let_def assert_def
    using a b c by (simp add: bind_def Concat)
qed (simp_all add: NewExtractExpr_step_def Let_def assert_def bind_def)

lemma NewExtractExpr_settled:
  "extract_fuel e \<le> n \<Longrightarrow> settled (extract_fuel e) (NewExtractExpr same n e off w)"
proof (induction n arbitrary: e off w)
  case 0
  have "settled (extract_fuel e) (NewExtractExpr_step same (\<lambda>expr offset width. Inl OutOfFuel) e off w)"
    using 0 by (cases e) (simp_all add: NewExtractExpr_step_def Let_def assert_def bind_def)
  then show ?case by simp
next
  case (Suc n)
  show ?case
    using extract_step_settled[of n "NewExtractExpr same n" e same off w] Suc by simp
qed

section \<open>Constants, offsets and the recursion bound of stores\<close>

lemma and_bitmask: "and v (push_bit n 1 - 1) = take_bit n (v::64 word)"
  by (simp add: push_bit_of_1 take_bit_eq_mask mask_eq_exp_minus_1)

lemma NewConstantExpr_take_bit:
  "NewConstantExpr v w = \<lparr>Value = take_bit (unat w) v, Width = w\<rparr>"
  unfolding NewConstantExpr_def and_bitmask ..

lemma take_bit_64 [simp]: "take_bit 64 (y::64 word) = y"
  using take_bit_length_eq[of y] by simp

lemma NewConstantExpr64_simp: "NewConstantExpr64 y = \<lparr>Value = y, Width = 64\<rparr>"
  by (simp add: NewConstantExpr64_def NewConstantExpr_take_bit)

lemma NewBinaryExpr_ADD_const64:
  "NewBinaryExpr n ADD (Constant \<lparr>Value = x, Width = 64\<rparr>) (Constant (NewConstantExpr64 y))
     = Inr (Constant \<lparr>Value = x + y, Width = 64\<rparr>)"
  by (cases n)
     (simp_all add: NewBinaryExpr_step_def newAddExpr_def IsConstantExpr_def WidthBool_def
        NewConstantExpr64_simp lift_const_def ConstantExpr_Add_def assert_def bind_def
        NewConstantExpr_take_bit)

lemma newZExtExpr_const64:
  "Width c \<le> 64 \<Longrightarrow> newZExtExpr same n (Constant c) Width64 = Inr (Constant \<lparr>Value = Value c, Width = 64\<rparr>)"
  by (cases c) (auto simp add: newZExtExpr_def Width64_def ConstantExpr_ZExt_def WidthBool_def
        NewConstantExpr_take_bit Let_def)

lemma storeByte_keeps:
  "storeByte same n a index v = Inr a' \<Longrightarrow> Size a' = Size a \<and> ID a' = ID a"
  by (auto simp: storeByte_def bind_def assert_def split: sum.splits if_splits Expr.splits unit.splits)

lemma newZExtExpr_settled:
  "extract_fuel e \<le> n \<Longrightarrow> settled (extract_fuel e) (newZExtExpr same n e w)"
  using NewExtractExpr_settled[of e n same 0 w]
  by (cases e) (auto simp: newZExtExpr_def Let_def)

lemma storeByte_settled:
  assumes "extract_fuel index \<le> n" and "extract_fuel v \<le> n"
  shows "storeByte same n a index v \<noteq> Inl OutOfFuel"
proof -
  have i: "newZExtExpr same n index Width64 \<noteq> Inl OutOfFuel"
    using newZExtExpr_settled[OF assms(1), of same Width64] by (auto simp: settled_def)
  have v: "newZExtExpr same n v Width8 \<noteq> Inl OutOfFuel"
    using newZExtExpr_settled[OF assms(2), of same Width8] by (auto simp: settled_def)
  from i v have "NewArrayUpdate same n index v \<noteq> Inl OutOfFuel"
    by (auto simp: NewArrayUpdate_def bind_def split: sum.splits)
  then show ?thesis
    by (auto simp: storeByte_def bind_def assert_def split: sum.splits if_splits Expr.splits)
qed

theorem C2_symbolic_barrier_witness:
  "Width \<lparr>Value = 0, Width = 64\<rparr> = 64
   \<and> Value \<lparr>Value = 0, Width = 64\<rparr> < Size (Array 0 2 [ArrayUpdate (Constant \<lparr>Value = 0, Width = 64\<rparr>) (Constant \<lparr>Value = 9, Width = 8\<rparr>)])
   \<and> \<not> IsConstantExpr (Cast (Select (Array 0 1 []) (Constant \<lparr>Value = 0, Width = 64\<rparr>)) 64 False)
   \<and> ExprWidth (Cast (Select (Array 0 1 []) (Constant \<lparr>Value = 0, Width = 64\<rparr>)) 64 False) = 64
   \<and> storeByte separate_nodes 0 (Array 0 2 [ArrayUpdate (Constant \<lparr>Value = 0, Width = 64\<rparr>) (Constant \<lparr>Value = 9, Width = 8\<rparr>)])
        (Constant \<lparr>Value = 0, Width = 64\<rparr>) (Constant \<lparr>Value = 0, Width = 8\<rparr>)
       = Inr (Array 0 2 [ArrayUpdate (Constant \<lparr>Value = 0, Width = 64\<rparr>) (Constant \<lparr>Value = 0, Width = 8\<rparr>)])
   \<and> selectByte 0
        (Array 0 2 [ArrayUpdate (Constant \<lparr>Value = 0, Width = 64\<rparr>) (Constant \<lparr>Value = 2, Width = 8\<rparr>),
                    ArrayUpdate (Cast (Select (Array 0 1 []) (Constant \<lparr>Value = 0, Width = 64\<rparr>)) 64 False)
                                (Constant \<lparr>Value = 1, Width = 8\<rparr>),
                    ArrayUpdate (Constant \<lparr>Value = 0, Width = 64\<rparr>) (Constant \<lparr>Value = 0, Width = 8\<rparr>)])
        (Constant \<lparr>Value = 0, Width = 64\<rparr>)
       = Inr (Constant \<lparr>Value = 2, Width = 8\<rparr>)"
  using C2_symbolic_barrier [where i = "\<lparr>Value = 0, Width = 64\<rparr>"
      and a = "Array 0 2 [ArrayUpdate (Constant \<lparr>Value = 0, Width = 64\<rparr>) (Constant \<lparr>Value = 9, Width = 8\<rparr>)]"
      and s = "Cast (Select (Array 0 1 []) (Constant \<lparr>Value = 0, Width = 64\<rparr>)) 64 False"
      and ?v1.0 = "Constant \<lparr>Value = 0, Width = 8\<rparr>" and ?v2.0 = "Constant \<lparr>Value = 1, Width = 8\<rparr>"
      and ?v3.0 = "Constant \<lparr>Value = 2, Width = 8\<rparr>" and n = 0 and same = separate_nodes]
  by (simp add: IsConstantExpr_def)

end
